theory Spec2Isabelle
  imports Main
begin

section \<open>Errors\<close>

text \<open>
  Every \<^verbatim>\<open>throw\<close> of the modelled TypeScript is a value of this type. The first group are
  the errors raised in \<^verbatim>\<open>toKernelPluginManager.ts\<close>, the second group the ones of the passkey
  validators and of the ECDSA kernel account, the third group are raised by the JavaScript
  runtime or by viem's encoders. \<open>CollaboratorError\<close> stands for a failure of an external
  call (a chain read, a remote relay, a signer).
\<close>

datatype error =
    NoValidatorSet
  | RegularValidatorNotSet
  | SudoValidatorNotSet
  | EnableSignatureNotSet
  | SignTransactionNotSupportedBySmartAccount
  | RegistrationNotVerified
  | NoRegistrationPublicKey
  | LoginNotVerified
  | NoLoginPublicKey
  | UnsupportedMessageFormat
  | SignatureNotVerified
  | InvalidOwner
  | AccountAddressNotFound
  | SizeExceedsPaddingSize
  | IntegerOutOfRange
  | BigIntSyntaxError
  | InvalidArrayLength
  | AbiEncodingBytesSizeMismatch
  | CollaboratorError string

section \<open>Hex strings\<close>

text \<open>
  A viem \<^verbatim>\<open>Hex\<close> value is a JavaScript string \<^verbatim>\<open>0x...\<close>; it is modelled as the string
  itself, prefix included, so that JavaScript truthiness (\<^verbatim>\<open>!s\<close> holds exactly for the
  empty string and for \<^verbatim>\<open>undefined\<close>) and \<^verbatim>\<open>slice\<close> are what they are in the source.
\<close>

type_synonym hex = string
type_synonym address = string

text \<open>\<^verbatim>\<open>if (v)\<close> for an optional string \<open>v\<close>.\<close>

fun truthy :: "string option \<Rightarrow> bool" where
  "truthy None = False"
| "truthy (Some s) = (s \<noteq> [])"

text \<open>\<^verbatim>\<open>x.replace("0x", "")\<close>: the first occurrence of \<^verbatim>\<open>0x\<close> is removed.\<close>

fun remove0x :: "string \<Rightarrow> string" where
  "remove0x (CHR ''0'' # CHR ''x'' # r) = r"
| "remove0x (c # r) = c # remove0x r"
| "remove0x [] = []"

text \<open>viem \<^verbatim>\<open>concatHex\<close> (and \<^verbatim>\<open>concat\<close> on hex strings):
  \<^verbatim>\<open>`0x${values.reduce((acc, x) => acc + x.replace("0x", ""), "")}`\<close>.\<close>

definition concatHex :: "hex list \<Rightarrow> hex" where
  "concatHex values = ''0x'' @ concat (map remove0x values)"

text \<open>viem \<^verbatim>\<open>size\<close>: the number of bytes of a hex string,
  \<^verbatim>\<open>Math.ceil((value.length - 2) / 2)\<close>.\<close>

definition size_hex :: "hex \<Rightarrow> nat" where
  "size_hex h = (length h - 2 + 1) div 2"

text \<open>viem \<^verbatim>\<open>pad(hex, { size })\<close> (direction left): fails when the value is longer than
  \<open>size\<close> bytes, otherwise \<^verbatim>\<open>padStart(size * 2, "0")\<close>. \<open>padRight\<close> is the direction
  \<^verbatim>\<open>right\<close> (\<^verbatim>\<open>padEnd\<close>).\<close>

definition pad :: "hex \<Rightarrow> nat \<Rightarrow> error + hex" where
  "pad v sz =
     (let h = remove0x v in
      if length h > sz * 2 then Inl SizeExceedsPaddingSize
      else Inr (''0x'' @ replicate (sz * 2 - length h) CHR ''0'' @ h))"

definition padRight :: "hex \<Rightarrow> nat \<Rightarrow> error + hex" where
  "padRight v sz =
     (let h = remove0x v in
      if length h > sz * 2 then Inl SizeExceedsPaddingSize
      else Inr (''0x'' @ h @ replicate (sz * 2 - length h) CHR ''0''))"

text \<open>\<^verbatim>\<open>Number.prototype.toString(16)\<close> / \<^verbatim>\<open>BigInt.prototype.toString(16)\<close> of a
  non-negative integer: lower-case digits, no leading zero.\<close>

definition hexDigit :: "nat \<Rightarrow> char" where
  "hexDigit d = ''0123456789abcdef'' ! (d mod 16)"

function toString16 :: "nat \<Rightarrow> string" where
  "toString16 n = (if n < 16 then [hexDigit n] else toString16 (n div 16) @ [hexDigit (n mod 16)])"
  by pat_completeness auto
termination
  by (relation "measure id") auto

declare toString16.simps [simp del]

text \<open>viem \<^verbatim>\<open>toHex\<close> of a bigint without a size (\<^verbatim>\<open>numberToHex\<close>): a negative value is
  out of range. \<open>numberToHex\<close> is the variant with \<^verbatim>\<open>{ size }\<close>, unsigned: the value
  must fit, and the digits are left-padded.\<close>

definition toHex :: "int \<Rightarrow> error + hex" where
  "toHex v = (if v < 0 then Inl IntegerOutOfRange else Inr (''0x'' @ toString16 (nat v)))"

definition numberToHex :: "int \<Rightarrow> nat \<Rightarrow> error + hex" where
  "numberToHex v sz =
     (if v < 0 \<or> v > 2 ^ (sz * 8) - 1 then Inl IntegerOutOfRange
      else pad (''0x'' @ toString16 (nat v)) sz)"

text \<open>The value of a hexadecimal digit, in either case.\<close>

definition hexDigitVal :: "char \<Rightarrow> nat option" where
  "hexDigitVal c =
     (let n = (of_char c :: nat) in
      if 48 \<le> n \<and> n \<le> 57 then Some (n - 48)
      else if 97 \<le> n \<and> n \<le> 102 then Some (n - 87)
      else if 65 \<le> n \<and> n \<le> 70 then Some (n - 55)
      else None)"

fun hexValue :: "nat \<Rightarrow> string \<Rightarrow> nat option" where
  "hexValue acc [] = Some acc"
| "hexValue acc (c # cs) =
     (case hexDigitVal c of None \<Rightarrow> None | Some d \<Rightarrow> hexValue (acc * 16 + d) cs)"

text \<open>\<^verbatim>\<open>BigInt(s)\<close> for a string of the form \<^verbatim>\<open>0x\<close> followed by one or more hexadecimal
  digits; any other string is a \<^verbatim>\<open>SyntaxError\<close> here (the source only passes the result of
  \<^verbatim>\<open>pad\<close>, which has that form, so the decimal and empty-string cases of \<^verbatim>\<open>BigInt\<close> are
  not needed).\<close>

definition BigInt :: "string \<Rightarrow> error + int" where
  "BigInt s =
     (if take 2 s = ''0x'' \<and> drop 2 s \<noteq> [] then
        (case hexValue 0 (drop 2 s) of None \<Rightarrow> Inl BigIntSyntaxError | Some v \<Rightarrow> Inr (int v))
      else Inl BigIntSyntaxError)"

text \<open>The big-endian value of the digits of a hex string, as a total function:
  the mathematical reading used to state results.\<close>

definition digitVal :: "char \<Rightarrow> nat" where
  "digitVal c = (case hexDigitVal c of None \<Rightarrow> 0 | Some d \<Rightarrow> d)"

definition bigEndian :: "hex \<Rightarrow> nat" where
  "bigEndian h = foldl (\<lambda>a c. a * 16 + digitVal c) 0 (drop 2 h)"

text \<open>A well-formed hex string of exactly \<open>n\<close> bytes.\<close>

definition isHexOfSize :: "nat \<Rightarrow> hex \<Rightarrow> bool" where
  "isHexOfSize n h =
     (take 2 h = ''0x'' \<and> length h = 2 + 2 * n \<and> list_all (\<lambda>c. hexDigitVal c \<noteq> None) (drop 2 h))"

section \<open>Data model\<close>

text \<open>The two entry-point protocol versions (\<^verbatim>\<open>getEntryPointVersion\<close> of permissionless).\<close>

datatype entryPointVersion = V06 | V07

text \<open>The keys of the table \<^verbatim>\<open>VALIDATOR_TYPE\<close>; a validator's own \<^verbatim>\<open>validatorType\<close> is
  \<open>SECONDARY\<close> or \<open>PERMISSION\<close>.\<close>

datatype validatorTypeKey = SUDO | SECONDARY | PERMISSION

text \<open>\<^verbatim>\<open>enum ValidatorMode\<close> (types/kernel.ts).\<close>

definition ValidatorMode_sudo :: hex where
  "ValidatorMode_sudo = ''0x00000000''"

definition ValidatorMode_plugin :: hex where
  "ValidatorMode_plugin = ''0x00000001''"

definition ValidatorMode_enable :: hex where
  "ValidatorMode_enable = ''0x00000002''"

definition zeroAddress :: address where
  "zeroAddress = ''0x0000000000000000000000000000000000000000''"

record action =
  executor :: address
  selector :: hex

text \<open>A user operation. The modelled code reads \<open>sender\<close> and \<open>callData\<close> and replaces
  \<open>signature\<close>; the remaining fields only reach the external hash function.\<close>

record userOperation =
  sender :: address
  nonce :: int
  initCode :: hex
  callData :: hex
  callGasLimit :: int
  verificationGasLimit :: int
  preVerificationGas :: int
  maxFeePerGas :: int
  maxPriorityFeePerGas :: int
  paymasterAndData :: hex
  signature :: hex

text \<open>viem's \<^verbatim>\<open>SignableMessage\<close>: a string, \<^verbatim>\<open>{ raw: Hex }\<close> or \<^verbatim>\<open>{ raw: Uint8Array }\<close>;
  \<open>MessageOther\<close> is any other run-time value.\<close>

datatype signableMessage =
    MessageString string
  | MessageRawHex hex
  | MessageRawBytes "nat list"
  | MessageOther

text \<open>EIP-712 typed data is built and hashed by code outside the modelled files; it is passed
  through as an opaque value.\<close>

type_synonym typedData = string

record transactionRequest =
  tx_to :: address
  tx_value :: int
  tx_data :: hex

text \<open>\<^verbatim>\<open>KernelValidator\<close> (types/kernel.ts): a viem \<^verbatim>\<open>LocalAccount\<close> extended with the
  validator capabilities. Every method is asynchronous and may throw, so it returns a sum.\<close>

record kernelValidator =
  v_address :: address
  v_validatorType :: validatorTypeKey
  v_getNonceKey :: "error + int"
  v_getDummySignature :: "userOperation \<Rightarrow> error + hex"
  v_signUserOperation :: "userOperation \<Rightarrow> error + hex"
  v_getEnableData :: "error + hex"
  v_isEnabled :: "address \<Rightarrow> hex \<Rightarrow> error + bool"
  v_getIdentifier :: hex
  v_signMessage :: "signableMessage \<Rightarrow> error + hex"
  v_signTypedData :: "typedData \<Rightarrow> error + hex"
  v_signTransaction :: "transactionRequest \<Rightarrow> error + hex"

text \<open>The tables of \<^verbatim>\<open>constants.ts\<close>, which is not among the source files: they are
  parameters. The source comments give each entry one byte.\<close>

record constants =
  VALIDATOR_MODE_DEFAULT :: hex
  VALIDATOR_MODE_ENABLE :: hex
  VALIDATOR_TYPE :: "validatorTypeKey \<Rightarrow> hex"

text \<open>The chain accessor: the viem client together with the read helpers that take it
  (\<^verbatim>\<open>getChainId\<close>, \<^verbatim>\<open>accountMetadata\<close>, \<^verbatim>\<open>getKernelV3Nonce\<close>, \<^verbatim>\<open>isPluginInitialized\<close>).
  \<open>accountMetadata\<close> yields the \<^verbatim>\<open>version\<close> field of its result, which may be undefined.\<close>

record client =
  getChainId :: "error + int"
  accountMetadata :: "address \<Rightarrow> address \<Rightarrow> error + string option"
  getKernelV3Nonce :: "address \<Rightarrow> error + int"
  isPluginInitialized :: "address \<Rightarrow> address \<Rightarrow> error + bool"

text \<open>The encoders imported by \<^verbatim>\<open>toKernelPluginManager.ts\<close> from files that are not among
  the sources; they are parameters. \<open>encodeEnableDataV1\<close> is the encoding used inside
  \<^verbatim>\<open>getEncodedPluginsData\<close> of ep0_6 (see \<open>getEncodedPluginsDataV1\<close> below); its arguments are
  account address, enable signature, action, validator, validUntil, validAfter.\<close>

record kernelUtils =
  getEntryPointVersion :: "address \<Rightarrow> entryPointVersion"
  getActionSelector :: "entryPointVersion \<Rightarrow> hex"
  getPluginsEnableTypedDataV1 ::
    "address \<Rightarrow> int \<Rightarrow> string option \<Rightarrow> action \<Rightarrow> kernelValidator \<Rightarrow> int \<Rightarrow> int \<Rightarrow> error + typedData"
  getPluginsEnableTypedDataV2 ::
    "address \<Rightarrow> int \<Rightarrow> string option \<Rightarrow> action \<Rightarrow> kernelValidator \<Rightarrow> int \<Rightarrow> error + typedData"
  encodeEnableDataV1 ::
    "address \<Rightarrow> hex \<Rightarrow> action \<Rightarrow> kernelValidator \<Rightarrow> int \<Rightarrow> int \<Rightarrow> error + hex"
  getEncodedPluginsDataV2 ::
    "address \<Rightarrow> action \<Rightarrow> hex \<Rightarrow> hex \<Rightarrow> kernelValidator \<Rightarrow> error + hex"

record validatorInitData =
  validatorAddress :: address
  enableData :: hex

text \<open>\<^verbatim>\<open>KernelPluginManagerParams\<close>: the arguments of \<^verbatim>\<open>toKernelPluginManager\<close>.\<close>

record kernelPluginManagerParams =
  p_sudo :: "kernelValidator option"
  p_regular :: "kernelValidator option"
  p_pluginEnableSignature :: "hex option"
  p_validatorInitData :: "validatorInitData option"
  p_executorData :: "action option"
  p_validAfter :: "int option"
  p_validUntil :: "int option"
  p_entryPoint :: address
  p_kernelVersion :: "string option"

text \<open>The variables the closures of the returned manager capture and never assign.\<close>

record kernelPluginManager =
  sudo :: "kernelValidator option"
  regular :: "kernelValidator option"
  validatorInitData :: "validatorInitData option"
  executorData :: action
  validAfter :: int
  validUntil :: int
  entryPointAddress :: address
  kernelVersion :: "string option"
  entryPointVersion :: entryPointVersion
  chainId :: int
  activeValidator :: kernelValidator

text \<open>The one captured variable that is assigned, \<^verbatim>\<open>pluginEnableSignature\<close>, and a log of the
  typed data handed to \<^verbatim>\<open>sudo.signTypedData\<close>: the log is not a variable of the program, it
  records the signing ceremonies so that they can be counted.\<close>

record managerState =
  pluginEnableSignature :: "hex option"
  signTypedDataCalls :: "typedData list"

section \<open>The plugin manager (toKernelPluginManager.ts)\<close>

text \<open>Lines 44-72: the defaults of the parameters, the entry-point version, the chain id and
  the active validator \<^verbatim>\<open>regular || sudo\<close>. The default of \<^verbatim>\<open>executorData\<close> takes the
  selector of v0.6 whatever the entry point is; a supplied \<^verbatim>\<open>Action\<close> has both fields, so
  the second assignment changes nothing.\<close>

definition toKernelPluginManager ::
  "client \<Rightarrow> kernelUtils \<Rightarrow> kernelPluginManagerParams \<Rightarrow> error + kernelPluginManager \<times> managerState"
where
  "toKernelPluginManager cl ku p =
     (let version = getEntryPointVersion ku (p_entryPoint p) in
      case getChainId cl of
        Inl e \<Rightarrow> Inl e
      | Inr cid \<Rightarrow>
          (case (case p_regular p of Some r \<Rightarrow> Some r | None \<Rightarrow> p_sudo p) of
             None \<Rightarrow> Inl NoValidatorSet
           | Some active \<Rightarrow>
               Inr (\<lparr> sudo = p_sudo p,
                       regular = p_regular p,
                       validatorInitData = p_validatorInitData p,
                       executorData =
                         (case p_executorData p of
                            Some a \<Rightarrow> a
                          | None \<Rightarrow> \<lparr> executor = zeroAddress, selector = getActionSelector ku V06 \<rparr>),
                       validAfter = (case p_validAfter p of Some t \<Rightarrow> t | None \<Rightarrow> 0),
                       validUntil = (case p_validUntil p of Some t \<Rightarrow> t | None \<Rightarrow> 0),
                       entryPointAddress = p_entryPoint p,
                       kernelVersion = p_kernelVersion p,
                       entryPointVersion = version,
                       chainId = cid,
                       activeValidator = active \<rparr>,
                    \<lparr> pluginEnableSignature = p_pluginEnableSignature p,
                      signTypedDataCalls = [] \<rparr>)))"

text \<open>Lines 126-135.\<close>

definition isPluginEnabled ::
  "client \<Rightarrow> kernelPluginManager \<Rightarrow> address \<Rightarrow> hex \<Rightarrow> error + bool"
where
  "isPluginEnabled cl m accountAddress sel =
     (case regular m of
        None \<Rightarrow> Inl RegularValidatorNotSet
      | Some r \<Rightarrow>
          if entryPointVersion m = V06 then v_isEnabled r accountAddress sel
          else
            (case v_isEnabled r accountAddress (selector (executorData m)) of
               Inl e \<Rightarrow> Inl e
             | Inr True \<Rightarrow> Inr True
             | Inr False \<Rightarrow> isPluginInitialized cl accountAddress (v_address r)))"

text \<open>Lines 139-176: the part of \<^verbatim>\<open>getPluginEnableSignature\<close> after the test of the captured
  variable. The call of \<^verbatim>\<open>sudo.signTypedData\<close> is logged when it is made. On v0.6 the result
  is assigned to \<^verbatim>\<open>pluginEnableSignature\<close> (line 162); on v0.7 it is returned without the
  assignment (lines 174-176).\<close>

definition signPluginEnable ::
  "client \<Rightarrow> kernelUtils \<Rightarrow> kernelPluginManager \<Rightarrow> address \<Rightarrow> managerState
     \<Rightarrow> (error + hex) \<times> managerState"
where
  "signPluginEnable cl ku m accountAddress st =
     (case sudo m of
        None \<Rightarrow> (Inl SudoValidatorNotSet, st)
      | Some su \<Rightarrow>
     (case regular m of
        None \<Rightarrow> (Inl RegularValidatorNotSet, st)
      | Some r \<Rightarrow>
     (case accountMetadata cl accountAddress (entryPointAddress m) of
        Inl e \<Rightarrow> (Inl e, st)
      | Inr version \<Rightarrow>
          if entryPointVersion m = V06 then
            (case getPluginsEnableTypedDataV1 ku accountAddress (chainId m)
                    (case version of Some v \<Rightarrow> Some v | None \<Rightarrow> kernelVersion m)
                    (executorData m) r (validUntil m) (validAfter m) of
               Inl e \<Rightarrow> (Inl e, st)
             | Inr typeData \<Rightarrow>
                 (let st1 = st\<lparr> signTypedDataCalls := signTypedDataCalls st @ [typeData] \<rparr> in
                  case v_signTypedData su typeData of
                    Inl e \<Rightarrow> (Inl e, st1)
                  | Inr ownerSig \<Rightarrow> (Inr ownerSig, st1\<lparr> pluginEnableSignature := Some ownerSig \<rparr>)))
          else
            (case getKernelV3Nonce cl accountAddress of
               Inl e \<Rightarrow> (Inl e, st)
             | Inr validatorNonce \<Rightarrow>
            (case getPluginsEnableTypedDataV2 ku accountAddress (chainId m) version
                    (executorData m) r validatorNonce of
               Inl e \<Rightarrow> (Inl e, st)
             | Inr typedData \<Rightarrow>
                 (let st1 = st\<lparr> signTypedDataCalls := signTypedDataCalls st @ [typedData] \<rparr> in
                  case v_signTypedData su typedData of
                    Inl e \<Rightarrow> (Inl e, st1)
                  | Inr ownerSig \<Rightarrow> (Inr ownerSig, st1)))))))"

text \<open>Lines 137-138: \<^verbatim>\<open>if (pluginEnableSignature) return pluginEnableSignature\<close>, then the
  rest.\<close>

definition getPluginEnableSignature ::
  "client \<Rightarrow> kernelUtils \<Rightarrow> kernelPluginManager \<Rightarrow> address \<Rightarrow> managerState
     \<Rightarrow> (error + hex) \<times> managerState"
where
  "getPluginEnableSignature cl ku m accountAddress st =
     (case pluginEnableSignature st of
        Some s \<Rightarrow> if s \<noteq> [] then (Inr s, st) else signPluginEnable cl ku m accountAddress st
      | None \<Rightarrow> signPluginEnable cl ku m accountAddress st)"

text \<open>A sequence of calls of \<^verbatim>\<open>getPluginEnableSignature\<close> on one manager, one call per
  account address of the list, each call starting in the state the previous one left: the
  results in order, and the final state.\<close>

fun enableSignatureCalls ::
  "client \<Rightarrow> kernelUtils \<Rightarrow> kernelPluginManager \<Rightarrow> address list \<Rightarrow> managerState
     \<Rightarrow> (error + hex) list \<times> managerState"
where
  "enableSignatureCalls cl ku m [] st = ([], st)"
| "enableSignatureCalls cl ku m (a # as) st =
     (case getPluginEnableSignature cl ku m a st of
        (r, st') \<Rightarrow>
          (case enableSignatureCalls cl ku m as st' of
             (rs, st'') \<Rightarrow> (r # rs, st'')))"

text \<open>Modelled from the spec: \<^verbatim>\<open>getEncodedPluginsData\<close> of
  \<^verbatim>\<open>kernel/utils/plugins/ep0_6\<close> is not among the source files. The spec gives the ENABLE
  envelope of v0.6 as \<^verbatim>\<open>0x00000002\<close> followed by an encoding of the account address, the
  validity bounds, the validator and executor addresses and the enable signature; the mode
  prefix is what is taken from it here, the encoding itself is the parameter
  \<open>encodeEnableDataV1\<close>.\<close>

definition getEncodedPluginsDataV1 ::
  "kernelUtils \<Rightarrow> address \<Rightarrow> hex \<Rightarrow> action \<Rightarrow> kernelValidator \<Rightarrow> int \<Rightarrow> int \<Rightarrow> error + hex"
where
  "getEncodedPluginsDataV1 ku accountAddress enableSignature act validator vUntil vAfter =
     (case encodeEnableDataV1 ku accountAddress enableSignature act validator vUntil vAfter of
        Inl e \<Rightarrow> Inl e
      | Inr encoded \<Rightarrow> Inr (concatHex [ValidatorMode_enable, encoded]))"

text \<open>Lines 74-124. The default of \<^verbatim>\<open>userOpSignature\<close> is \<^verbatim>\<open>"0x"\<close>; callers that omit it pass
  \<open>''0x''\<close>. The test \<^verbatim>\<open>!enableSignature\<close> of line 87 holds for the empty string only: the
  awaited value is a string.\<close>

definition getSignatureData ::
  "client \<Rightarrow> kernelUtils \<Rightarrow> kernelPluginManager \<Rightarrow> address \<Rightarrow> hex \<Rightarrow> hex \<Rightarrow> managerState
     \<Rightarrow> (error + hex) \<times> managerState"
where
  "getSignatureData cl ku m accountAddress sel userOpSignature st =
     (if entryPointVersion m = V06 then
        (case regular m of
           Some r \<Rightarrow>
             (case isPluginEnabled cl m accountAddress sel of
                Inl e \<Rightarrow> (Inl e, st)
              | Inr True \<Rightarrow> (Inr ValidatorMode_plugin, st)
              | Inr False \<Rightarrow>
                  (case getPluginEnableSignature cl ku m accountAddress st of
                     (Inl e, st') \<Rightarrow> (Inl e, st')
                   | (Inr enableSignature, st') \<Rightarrow>
                       if enableSignature = [] then (Inl EnableSignatureNotSet, st')
                       else (getEncodedPluginsDataV1 ku accountAddress enableSignature
                               (executorData m) r (validUntil m) (validAfter m), st')))
         | None \<Rightarrow>
             (case sudo m of
                Some su \<Rightarrow> (Inr ValidatorMode_sudo, st)
              | None \<Rightarrow> (Inl NoValidatorSet, st)))
      else
        (case regular m of
           Some r \<Rightarrow>
             (case isPluginEnabled cl m accountAddress (selector (executorData m)) of
                Inl e \<Rightarrow> (Inl e, st)
              | Inr True \<Rightarrow> (Inr userOpSignature, st)
              | Inr False \<Rightarrow>
                  (case getPluginEnableSignature cl ku m accountAddress st of
                     (Inl e, st') \<Rightarrow> (Inl e, st')
                   | (Inr enableSignature, st') \<Rightarrow>
                       (getEncodedPluginsDataV2 ku accountAddress (executorData m)
                          enableSignature userOpSignature r, st')))
         | None \<Rightarrow>
             (case sudo m of
                Some su \<Rightarrow> (Inr userOpSignature, st)
              | None \<Rightarrow> (Inl NoValidatorSet, st))))"

text \<open>Lines 181-187.\<close>

definition getIdentifier :: "constants \<Rightarrow> kernelPluginManager \<Rightarrow> bool \<Rightarrow> hex" where
  "getIdentifier k m isSudo =
     (let validator =
            (case (if isSudo then sudo m else regular m) of
               Some v \<Rightarrow> v
             | None \<Rightarrow> activeValidator m)
      in concatHex [VALIDATOR_TYPE k (v_validatorType validator), v_getIdentifier validator])"

text \<open>Lines 188-205. \<^verbatim>\<open>callData.toString().slice(0, 10)\<close> is the prefix \<^verbatim>\<open>0x\<close> and the first
  four bytes of the call data.\<close>

definition signUserOperation ::
  "client \<Rightarrow> kernelUtils \<Rightarrow> kernelPluginManager \<Rightarrow> userOperation \<Rightarrow> managerState
     \<Rightarrow> (error + hex) \<times> managerState"
where
  "signUserOperation cl ku m uo st =
     (case v_signUserOperation (activeValidator m) uo of
        Inl e \<Rightarrow> (Inl e, st)
      | Inr userOpSig \<Rightarrow>
          if entryPointVersion m = V06 then
            (case getSignatureData cl ku m (sender uo) (take 10 (callData uo)) ''0x'' st of
               (Inl e, st') \<Rightarrow> (Inl e, st')
             | (Inr d, st') \<Rightarrow> (Inr (concatHex [d, userOpSig]), st'))
          else getSignatureData cl ku m (sender uo) (take 10 (callData uo)) userOpSig st)"

text \<open>Lines 211-228.\<close>

definition getDummySignature ::
  "client \<Rightarrow> kernelUtils \<Rightarrow> kernelPluginManager \<Rightarrow> userOperation \<Rightarrow> managerState
     \<Rightarrow> (error + hex) \<times> managerState"
where
  "getDummySignature cl ku m uo st =
     (case v_getDummySignature (activeValidator m) uo of
        Inl e \<Rightarrow> (Inl e, st)
      | Inr userOpSig \<Rightarrow>
          if entryPointVersion m = V06 then
            (case getSignatureData cl ku m (sender uo) (take 10 (callData uo)) ''0x'' st of
               (Inl e, st') \<Rightarrow> (Inl e, st')
             | (Inr d, st') \<Rightarrow> (Inr (concatHex [d, userOpSig]), st'))
          else getSignatureData cl ku m (sender uo) (take 10 (callData uo)) userOpSig st)"

text \<open>Lines 233-237: the mode byte of the nonce key. \<^verbatim>\<open>!regular || (await isPluginEnabled(...))\<close>
  does not call \<^verbatim>\<open>isPluginEnabled\<close> without a regular validator.\<close>

definition getValidatorMode ::
  "constants \<Rightarrow> client \<Rightarrow> kernelPluginManager \<Rightarrow> address \<Rightarrow> error + hex"
where
  "getValidatorMode k cl m accountAddress =
     (case regular m of
        None \<Rightarrow> Inr (VALIDATOR_MODE_DEFAULT k)
      | Some r \<Rightarrow>
          (case isPluginEnabled cl m accountAddress (selector (executorData m)) of
             Inl e \<Rightarrow> Inl e
           | Inr True \<Rightarrow> Inr (VALIDATOR_MODE_DEFAULT k)
           | Inr False \<Rightarrow> Inr (VALIDATOR_MODE_ENABLE k)))"

text \<open>Lines 229-254. The argument \<^verbatim>\<open>accountAddress\<close> defaults to \<^verbatim>\<open>zeroAddress\<close>.\<close>

definition getNonceKey ::
  "constants \<Rightarrow> client \<Rightarrow> kernelPluginManager \<Rightarrow> address \<Rightarrow> error + int"
where
  "getNonceKey k cl m accountAddress =
     (if entryPointVersion m = V06 then v_getNonceKey (activeValidator m)
      else
        (case getValidatorMode k cl m accountAddress of
           Inl e \<Rightarrow> Inl e
         | Inr validatorMode \<Rightarrow>
        (let validatorType =
               (case regular m of
                  Some r \<Rightarrow> VALIDATOR_TYPE k (v_validatorType r)
                | None \<Rightarrow> VALIDATOR_TYPE k SUDO)
         in
         case v_getNonceKey (activeValidator m) of
           Inl e \<Rightarrow> Inl e
         | Inr nonceKey \<Rightarrow>
        (case toHex nonceKey of
           Inl e \<Rightarrow> Inl e
         | Inr nonceKeyHex \<Rightarrow>
        (case pad nonceKeyHex 2 of
           Inl e \<Rightarrow> Inl e
         | Inr subKey \<Rightarrow>
        (case pad (concatHex [validatorMode, validatorType,
                              v_getIdentifier (activeValidator m), subKey]) 24 of
           Inl e \<Rightarrow> Inl e
         | Inr padded \<Rightarrow> BigInt padded))))))"

text \<open>The nonce key as the spec describes it: the big-endian integer of the 24 bytes
  \<^verbatim>\<open>mode(1) || validatorType(1) || validatorIdentifier(20) || subKey(2)\<close>, that is, the mode in
  bits 184 to 191, the validator type in bits 176 to 183, the identifier in bits 16 to 175 and
  the sub-key in the low 16 bits.\<close>

definition nonceKeyValue :: "hex \<Rightarrow> hex \<Rightarrow> hex \<Rightarrow> int \<Rightarrow> int" where
  "nonceKeyValue mode vtype ident subKey =
     int (bigEndian mode) * 2 ^ 184 + int (bigEndian vtype) * 2 ^ 176
       + int (bigEndian ident) * 2 ^ 16 + subKey"

text \<open>Lines 256-265.\<close>

definition getValidatorInitData :: "kernelPluginManager \<Rightarrow> error + validatorInitData" where
  "getValidatorInitData m =
     (case validatorInitData m of
        Some d \<Rightarrow> Inr d
      | None \<Rightarrow>
          (case (case sudo m of Some su \<Rightarrow> v_getEnableData su
                              | None \<Rightarrow> v_getEnableData (activeValidator m)) of
             Inl e \<Rightarrow> Inl e
           | Inr d \<Rightarrow>
               Inr \<lparr> validatorAddress =
                       (case sudo m of Some su \<Rightarrow> v_address su
                                     | None \<Rightarrow> v_address (activeValidator m)),
                     enableData = d \<rparr>))"

text \<open>Line 180: \<^verbatim>\<open>...activeValidator\<close>. The members the manager does not redefine are
  those of the active validator, \<^verbatim>\<open>signTransaction\<close>, \<^verbatim>\<open>signMessage\<close> and \<^verbatim>\<open>signTypedData\<close>
  among them.\<close>

definition manager_signTransaction ::
  "kernelPluginManager \<Rightarrow> transactionRequest \<Rightarrow> error + hex"
where
  "manager_signTransaction m tx = v_signTransaction (activeValidator m) tx"

section \<open>ABI encoding (viem encodeAbiParameters)\<close>

text \<open>The encoder is a library function; it is modelled for the two parameter lists the
  sources use, following the contract ABI: a head of 32-byte words (a static value, or the
  offset of a dynamic one) followed by the dynamic values, each a length word and the data
  right-padded to a multiple of 32 bytes.\<close>

definition ceil32 :: "nat \<Rightarrow> nat" where
  "ceil32 n = ((n + 31) div 32) * 32"

definition byteHex :: "nat \<Rightarrow> string" where
  "byteHex b = [hexDigit (b div 16), hexDigit (b mod 16)]"

text \<open>\<^verbatim>\<open>stringToHex\<close>: the UTF-8 bytes of the string. The strings here come from
  \<^verbatim>\<open>atob\<close> or are literals, so every character is a code unit below 256: one byte below
  128, two bytes otherwise.\<close>

definition utf8 :: "char \<Rightarrow> nat list" where
  "utf8 c =
     (let n = (of_char c :: nat) in
      if n < 128 then [n] else [192 + n div 64, 128 + n mod 64])"

definition stringToHex :: "string \<Rightarrow> hex" where
  "stringToHex str = ''0x'' @ concat (map byteHex (concat (map utf8 str)))"

text \<open>A dynamic \<^verbatim>\<open>bytes\<close> value: the data is padded only when its size is not a multiple
  of 32.\<close>

definition encodeBytes :: "hex \<Rightarrow> error + hex" where
  "encodeBytes v =
     (case numberToHex (int (size_hex v)) 32 of
        Inl e \<Rightarrow> Inl e
      | Inr len \<Rightarrow>
          if size_hex v mod 32 \<noteq> 0 then
            (case padRight v (ceil32 (size_hex v)) of
               Inl e \<Rightarrow> Inl e
             | Inr data \<Rightarrow> Inr (concatHex [len, data]))
          else Inr (concatHex [len, v]))"

text \<open>A \<^verbatim>\<open>string\<close> value: viem pads the 32-byte slices of the UTF-8 data one by one, which
  pads the last slice only.\<close>

definition encodeString :: "string \<Rightarrow> error + hex" where
  "encodeString str =
     (let h = stringToHex str in
      case numberToHex (int (size_hex h)) 32 of
        Inl e \<Rightarrow> Inl e
      | Inr len \<Rightarrow>
          (case padRight h (ceil32 (size_hex h)) of
             Inl e \<Rightarrow> Inl e
           | Inr data \<Rightarrow> Inr (concatHex [len, data])))"

text \<open>A static \<^verbatim>\<open>bytes32\<close> value: its size must be 32.\<close>

definition encodeBytes32 :: "hex \<Rightarrow> error + hex" where
  "encodeBytes32 v =
     (if size_hex v \<noteq> 32 then Inl AbiEncodingBytesSizeMismatch else padRight v 32)"


text \<open>\<^verbatim>\<open>encodeAbiParameters\<close> for the parameter list
  \<^verbatim>\<open>(bytes authenticatorData, string clientDataJSON, uint256 responseTypeLocation, uint256 r, uint256 s)\<close>.\<close>

definition encodeWebAuthnSignature :: "hex \<Rightarrow> string \<Rightarrow> int \<Rightarrow> int \<Rightarrow> int \<Rightarrow> error + hex" where
  "encodeWebAuthnSignature authData clientData loc r s =
     (case encodeBytes authData of Inl e \<Rightarrow> Inl e | Inr encA \<Rightarrow>
     (case encodeString clientData of Inl e \<Rightarrow> Inl e | Inr encC \<Rightarrow>
     (case numberToHex loc 32 of Inl e \<Rightarrow> Inl e | Inr encLoc \<Rightarrow>
     (case numberToHex r 32 of Inl e \<Rightarrow> Inl e | Inr encR \<Rightarrow>
     (case numberToHex s 32 of Inl e \<Rightarrow> Inl e | Inr encS \<Rightarrow>
     (case numberToHex 160 32 of Inl e \<Rightarrow> Inl e | Inr offA \<Rightarrow>
     (case numberToHex (160 + int (size_hex encA)) 32 of Inl e \<Rightarrow> Inl e | Inr offC \<Rightarrow>
        Inr (concatHex [offA, offC, encLoc, encR, encS, encA, encC]))))))))"


text \<open>\<^verbatim>\<open>encodeAbiParameters\<close> for \<^verbatim>\<open>((uint256 x, uint256 y, bool usePrecompiled), bytes32)\<close>:
  four static words.\<close>

definition encodeWebAuthnEnableData :: "int \<Rightarrow> int \<Rightarrow> bool \<Rightarrow> hex \<Rightarrow> error + hex" where
  "encodeWebAuthnEnableData x y usePrecompiled idHash =
     (case numberToHex x 32 of Inl e \<Rightarrow> Inl e | Inr encX \<Rightarrow>
     (case numberToHex y 32 of Inl e \<Rightarrow> Inl e | Inr encY \<Rightarrow>
     (case numberToHex (if usePrecompiled then 1 else 0) 32 of Inl e \<Rightarrow> Inl e | Inr encB \<Rightarrow>
     (case encodeBytes32 idHash of Inl e \<Rightarrow> Inl e | Inr encH \<Rightarrow>
        Inr (concatHex [encX, encY, encB, encH])))))"

section \<open>Hashing\<close>

text \<open>\<^verbatim>\<open>getUserOperationHash\<close> (permissionless), \<^verbatim>\<open>keccak256\<close> and \<^verbatim>\<open>hashTypedData\<close> (viem) are
  external; they are parameters. \<open>hashTypedData\<close> stands for \<^verbatim>\<open>validateTypedData\<close> followed by
  \<^verbatim>\<open>hashTypedData\<close>: it fails when the validation throws. The arguments of
  \<open>getUserOperationHash\<close> are the user operation, the entry point and the chain id.\<close>

record hashing =
  getUserOperationHash :: "userOperation \<Rightarrow> address \<Rightarrow> int \<Rightarrow> hex"
  keccak256 :: "hex \<Rightarrow> hex"
  hashTypedData :: "typedData \<Rightarrow> error + hex"

section \<open>The passkey validators (createPasskeyValidator, getPasskeyValidator)\<close>

text \<open>What the remote relay and the platform authenticator return. \<open>enrollment\<close> is the
  outcome of a registration (or of a login): the relay's \<^verbatim>\<open>verified\<close> flag, the public key
  as the two coordinates that \<^verbatim>\<open>crypto.subtle\<close> extracts from it (absent when the credential
  carries none) and the hash of the credential id. \<open>assertion\<close> is the outcome of one signing
  ceremony: the relay's \<^verbatim>\<open>success\<close> flag, the authenticator data as hex, the client data
  JSON, and the values that the helpers \<^verbatim>\<open>findQuoteIndices\<close> and \<^verbatim>\<open>parseAndNormalizeSig\<close> of
  \<^verbatim>\<open>utils.ts\<close> (not among the source files) compute from it.\<close>

record enrollment =
  verified :: bool
  publicKey :: "(int \<times> int) option"
  authenticatorIdHash :: hex

record assertion =
  success :: bool
  authenticatorDataHex :: hex
  clientDataJSON :: string
  beforeType :: int
  sig_r :: int
  sig_s :: int

record passkeyServer =
  registerPasskey :: "string \<Rightarrow> error + enrollment"
  loginPasskey :: "error + enrollment"
  signCeremony :: "string \<Rightarrow> error + assertion"
  isRIP7212SupportedNetwork :: "int \<Rightarrow> bool"

text \<open>The object both constructors return: the viem account spread into the validator
  members.\<close>

record webAuthnValidator =
  w_address :: address
  w_signMessage :: "signableMessage \<Rightarrow> error + hex"
  w_signTransaction :: "transactionRequest \<Rightarrow> error + hex"
  w_signTypedData :: "typedData \<Rightarrow> error + hex"
  w_getEnableData :: "error + hex"
  w_getNonceKey :: "error + int"
  w_signUserOperation :: "userOperation \<Rightarrow> error + hex"
  w_getDummySignature :: "error + hex"
  w_isEnabled :: "address \<Rightarrow> hex \<Rightarrow> error + bool"

text \<open>Decimal digits, for \<^verbatim>\<open>Uint8Array.prototype.toString\<close> (the elements joined by commas).\<close>

function toString10 :: "nat \<Rightarrow> string" where
  "toString10 n =
     (if n < 10 then [''0123456789'' ! n] else toString10 (n div 10) @ [''0123456789'' ! (n mod 10)])"
  by pat_completeness auto
termination
  by (relation "measure id") auto

declare toString10.simps [simp del]

fun joinBytes :: "nat list \<Rightarrow> string" where
  "joinBytes [] = []"
| "joinBytes [b] = toString10 b"
| "joinBytes (b # bs) = toString10 b @ '','' @ joinBytes bs"

text \<open>\<^verbatim>\<open>messageContent.startsWith("0x") ? messageContent.slice(2) : messageContent\<close>
  (lines 152-154).\<close>

definition stripHexPrefix :: "string \<Rightarrow> string" where
  "stripHexPrefix messageContent =
     (if take 2 messageContent = ''0x'' then drop 2 messageContent else messageContent)"

text \<open>\<^verbatim>\<open>signMessage\<close> of the passkey account (part_001, lines 135-230 and 431-526, the same
  text in both constructors).\<close>

definition passkey_signMessage :: "passkeyServer \<Rightarrow> signableMessage \<Rightarrow> error + hex" where
  "passkey_signMessage srv message =
     (case (case message of
              MessageString str \<Rightarrow> Inr str
            | MessageRawHex h \<Rightarrow> Inr h
            | MessageRawBytes bs \<Rightarrow> Inr (joinBytes bs)
            | MessageOther \<Rightarrow> Inl UnsupportedMessageFormat) of
        Inl e \<Rightarrow> Inl e
      | Inr messageContent \<Rightarrow>
          (let formattedMessage = stripHexPrefix messageContent in
           case signCeremony srv formattedMessage of
             Inl e \<Rightarrow> Inl e
           | Inr verifyResult \<Rightarrow>
               if \<not> success verifyResult then Inl SignatureNotVerified
               else encodeWebAuthnSignature (authenticatorDataHex verifyResult)
                      (clientDataJSON verifyResult) (beforeType verifyResult)
                      (sig_r verifyResult) (sig_s verifyResult)))"

text \<open>\<^verbatim>\<open>signTransaction\<close> (lines 231-233 and 527-529).\<close>

definition passkey_signTransaction :: "transactionRequest \<Rightarrow> error + hex" where
  "passkey_signTransaction tx = Inl SignTransactionNotSupportedBySmartAccount"

text \<open>\<^verbatim>\<open>signTypedData\<close> (lines 234-256 and 530-552). viem's \<^verbatim>\<open>signMessage\<close> action calls the
  \<^verbatim>\<open>signMessage\<close> of a local account, which \<^verbatim>\<open>toAccount\<close> makes.\<close>

definition passkey_signTypedData :: "hashing \<Rightarrow> passkeyServer \<Rightarrow> typedData \<Rightarrow> error + hex" where
  "passkey_signTypedData hs srv td =
     (case hashTypedData hs td of
        Inl e \<Rightarrow> Inl e
      | Inr h \<Rightarrow> passkey_signMessage srv (MessageString h))"

text \<open>\<^verbatim>\<open>signUserOperation\<close> (lines 300-317 and 596-613).\<close>

definition passkey_signUserOperation ::
  "hashing \<Rightarrow> passkeyServer \<Rightarrow> address \<Rightarrow> int \<Rightarrow> userOperation \<Rightarrow> error + hex"
where
  "passkey_signUserOperation hs srv entryPointAddr cid uo =
     passkey_signMessage srv
       (MessageRawHex (getUserOperationHash hs (uo\<lparr> signature := ''0x'' \<rparr>) entryPointAddr cid))"

text \<open>\<^verbatim>\<open>getDummySignature\<close> (lines 318-336 and 614-632): the encoding of fixed values,
  37 bytes of authenticator data and a client data JSON of 112 characters.\<close>

definition dummyAuthenticatorData :: hex where
  "dummyAuthenticatorData =
     ''0xffffffffffffffffffffffffffffffffffffffffffffffffffffffffffffffffffffffffff''"

definition dummyClientDataJSON :: string where
  \<open>dummyClientDataJSON =
     ''{"type":"webauthn.get","challenge":"aaaaaaaaaaaaaaaaaaaaaaaaaaaaaaaaaaaaaaaaaaa",''
     @ ''"origin":"https://example.com"}''\<close>

definition passkey_getDummySignature :: "error + hex" where
  "passkey_getDummySignature =
     encodeWebAuthnSignature dummyAuthenticatorData dummyClientDataJSON
       (2 ^ 256 - 1)
       11111111111111111111111111111111111111111111111111111111111111111111111111111
       22222222222222222222222222222222222222222222222222222222222222222222222222222"

text \<open>\<^verbatim>\<open>isEnabled\<close> (lines 338-343 and 634-639).\<close>

definition passkey_isEnabled :: "address \<Rightarrow> hex \<Rightarrow> error + bool" where
  "passkey_isEnabled kernelAccountAddress sel = Inr False"

text \<open>The validator object built from an enrollment whose public key is \<open>(x, y)\<close>.\<close>

definition passkeyValidator ::
  "hashing \<Rightarrow> passkeyServer \<Rightarrow> address \<Rightarrow> address \<Rightarrow> int \<Rightarrow> int \<Rightarrow> int \<Rightarrow> hex \<Rightarrow> webAuthnValidator"
where
  "passkeyValidator hs srv entryPointAddr validatorAddr cid x y idHash =
     \<lparr> w_address = validatorAddr,
       w_signMessage = passkey_signMessage srv,
       w_signTransaction = passkey_signTransaction,
       w_signTypedData = passkey_signTypedData hs srv,
       w_getEnableData = encodeWebAuthnEnableData x y (isRIP7212SupportedNetwork srv cid) idHash,
       w_getNonceKey = Inr 0,
       w_signUserOperation = passkey_signUserOperation hs srv entryPointAddr cid,
       w_getDummySignature = passkey_getDummySignature,
       w_isEnabled = passkey_isEnabled \<rparr>"

text \<open>\<^verbatim>\<open>createPasskeyValidator\<close> (lines 44-345): registration, then the validator.\<close>

definition createPasskeyValidator ::
  "client \<Rightarrow> hashing \<Rightarrow> passkeyServer \<Rightarrow> string \<Rightarrow> address \<Rightarrow> address \<Rightarrow> error + webAuthnValidator"
where
  "createPasskeyValidator cl hs srv passkeyName entryPointAddr validatorAddr =
     (case registerPasskey srv passkeyName of
        Inl e \<Rightarrow> Inl e
      | Inr reg \<Rightarrow>
          if \<not> verified reg then Inl RegistrationNotVerified
          else
            (case publicKey reg of
               None \<Rightarrow> Inl NoRegistrationPublicKey
             | Some (x, y) \<Rightarrow>
                 (case getChainId cl of
                    Inl e \<Rightarrow> Inl e
                  | Inr cid \<Rightarrow>
                      Inr (passkeyValidator hs srv entryPointAddr validatorAddr cid x y
                             (authenticatorIdHash reg)))))"

text \<open>\<^verbatim>\<open>getPasskeyValidator\<close> (lines 347-641): login, then the validator.\<close>

definition getPasskeyValidator ::
  "client \<Rightarrow> hashing \<Rightarrow> passkeyServer \<Rightarrow> address \<Rightarrow> address \<Rightarrow> error + webAuthnValidator"
where
  "getPasskeyValidator cl hs srv entryPointAddr validatorAddr =
     (case loginPasskey srv of
        Inl e \<Rightarrow> Inl e
      | Inr lg \<Rightarrow>
          if \<not> verified lg then Inl LoginNotVerified
          else
            (case publicKey lg of
               None \<Rightarrow> Inl NoLoginPublicKey
             | Some (x, y) \<Rightarrow>
                 (case getChainId cl of
                    Inl e \<Rightarrow> Inl e
                  | Inr cid \<Rightarrow>
                      Inr (passkeyValidator hs srv entryPointAddr validatorAddr cid x y
                             (authenticatorIdHash lg)))))"

section \<open>The ECDSA kernel account (signerToEcdsaKernelSmartAccount)\<close>

text \<open>The owner: a viem account. viem's \<^verbatim>\<open>signMessage\<close> and \<^verbatim>\<open>signTypedData\<close> actions call the
  account's own methods when its type is \<^verbatim>\<open>local\<close> and send a wallet request through the
  client otherwise.\<close>

datatype accountType = Local | JsonRpc

record smartAccountSigner =
  signer_type :: accountType
  signer_address :: address
  signer_signMessage :: "signableMessage \<Rightarrow> error + hex"
  signer_signTypedData :: "typedData \<Rightarrow> error + hex"

text \<open>The requests of the client that the account uses: the wallet requests, the read of
  \<^verbatim>\<open>ecdsaValidatorStorage\<close>, \<^verbatim>\<open>getSenderAddress\<close> (an absent address is \<open>None\<close>) and
  \<^verbatim>\<open>getChainId\<close>. \<open>ac_encodeInitCode\<close> is \<^verbatim>\<open>getAccountInitCode\<close> (its check of the owner
  and its encoders, which are external); its arguments are owner, index, factory, account
  logic and validator address.\<close>

record accountClient =
  ac_getChainId :: "error + int"
  ac_walletSignMessage :: "address \<Rightarrow> signableMessage \<Rightarrow> error + hex"
  ac_walletSignTypedData :: "address \<Rightarrow> typedData \<Rightarrow> error + hex"
  ac_ecdsaValidatorStorage :: "address \<Rightarrow> address \<Rightarrow> error + address"
  ac_getSenderAddress :: "hex \<Rightarrow> address \<Rightarrow> error + address option"
  ac_encodeInitCode :: "address \<Rightarrow> int \<Rightarrow> address \<Rightarrow> address \<Rightarrow> address \<Rightarrow> error + hex"

definition viem_signMessage ::
  "accountClient \<Rightarrow> smartAccountSigner \<Rightarrow> signableMessage \<Rightarrow> error + hex"
where
  "viem_signMessage cl acc message =
     (if signer_type acc = Local then signer_signMessage acc message
      else ac_walletSignMessage cl (signer_address acc) message)"

definition viem_signTypedData ::
  "accountClient \<Rightarrow> smartAccountSigner \<Rightarrow> typedData \<Rightarrow> error + hex"
where
  "viem_signTypedData cl acc td =
     (if signer_type acc = Local then signer_signTypedData acc td
      else ac_walletSignTypedData cl (signer_address acc) td)"

text \<open>\<^verbatim>\<open>isAddressEqual\<close>: the comparison ignores the case of the digits (viem also rejects a
  malformed address, which is not modelled).\<close>

definition lowerChar :: "char \<Rightarrow> char" where
  "lowerChar c =
     (let n = (of_char c :: nat) in if 65 \<le> n \<and> n \<le> 90 then char_of (n + 32) else c)"

definition isAddressEqual :: "address \<Rightarrow> address \<Rightarrow> bool" where
  "isAddressEqual a b = (map lowerChar a = map lowerChar b)"

record ecdsaAccountParams =
  e_signer :: smartAccountSigner
  e_entryPoint :: address
  e_index :: int
  e_factoryAddress :: address
  e_accountLogicAddress :: address
  e_ecdsaValidatorAddress :: address
  e_deployedAccountAddress :: "address option"

text \<open>\<^verbatim>\<open>getAccountAddress\<close> (part_002, lines 143-201).\<close>

definition getAccountAddress :: "accountClient \<Rightarrow> ecdsaAccountParams \<Rightarrow> error + address option" where
  "getAccountAddress cl p =
     (case e_deployedAccountAddress p of
        Some deployed \<Rightarrow>
          (case ac_ecdsaValidatorStorage cl (e_ecdsaValidatorAddress p) deployed of
             Inl e \<Rightarrow> Inl e
           | Inr deployedAccountOwner \<Rightarrow>
               if \<not> isAddressEqual deployedAccountOwner (signer_address (e_signer p))
               then Inl InvalidOwner
               else Inr (Some deployed))
      | None \<Rightarrow>
          (case ac_encodeInitCode cl (signer_address (e_signer p)) (e_index p)
                  (e_factoryAddress p) (e_accountLogicAddress p) (e_ecdsaValidatorAddress p) of
             Inl e \<Rightarrow> Inl e
           | Inr code \<Rightarrow> ac_getSenderAddress cl code (e_entryPoint p)))"

text \<open>The members of the returned account that the claims are about.\<close>

record kernelSmartAccount =
  k_address :: address
  k_signMessage :: "signableMessage \<Rightarrow> error + hex"
  k_signTransaction :: "transactionRequest \<Rightarrow> error + hex"
  k_signTypedData :: "typedData \<Rightarrow> error + hex"
  k_signUserOperation :: "userOperation \<Rightarrow> error + hex"
  k_getDummySignature :: "error + hex"

text \<open>\<^verbatim>\<open>signUserOperation\<close> (lines 311-326).\<close>

definition ecdsa_signUserOperation ::
  "accountClient \<Rightarrow> hashing \<Rightarrow> smartAccountSigner \<Rightarrow> address \<Rightarrow> int \<Rightarrow> userOperation \<Rightarrow> error + hex"
where
  "ecdsa_signUserOperation cl hs viemSigner entryPointAddr cid uo =
     (case viem_signMessage cl viemSigner
             (MessageRawHex (getUserOperationHash hs (uo\<lparr> signature := ''0x'' \<rparr>) entryPointAddr cid)) of
        Inl e \<Rightarrow> Inl e
      | Inr sg \<Rightarrow> Inr (concatHex [''0x00000000'', sg]))"

text \<open>\<^verbatim>\<open>getDummySignature\<close> (lines 372-375).\<close>

definition ecdsa_getDummySignature :: "error + hex" where
  "ecdsa_getDummySignature =
     Inr (''0x00000000fffffffffffffffffffffffffffffff00000000000000000000000000000000''
          @ ''07aaaaaaaaaaaaaaaaaaaaaaaaaaaaaaaaaaaaaaaaaaaaaaaaaaaaaaaaaaaaaaa1c'')"

text \<open>\<^verbatim>\<open>signerToEcdsaKernelSmartAccount\<close> (lines 213-377). The two promises of
  \<^verbatim>\<open>Promise.all\<close> are taken in the order they are listed. A local signer is copied with a
  \<^verbatim>\<open>signTransaction\<close> that throws; the copy's other members are the signer's.\<close>

definition signerToEcdsaKernelSmartAccount ::
  "accountClient \<Rightarrow> hashing \<Rightarrow> ecdsaAccountParams \<Rightarrow> error + kernelSmartAccount"
where
  "signerToEcdsaKernelSmartAccount cl hs p =
     (let viemSigner = e_signer p in
      case getAccountAddress cl p of
        Inl e \<Rightarrow> Inl e
      | Inr found \<Rightarrow>
          (case ac_getChainId cl of
             Inl e \<Rightarrow> Inl e
           | Inr cid \<Rightarrow>
               (case found of
                  None \<Rightarrow> Inl AccountAddressNotFound
                | Some accountAddress \<Rightarrow>
                    if accountAddress = [] then Inl AccountAddressNotFound
                    else
                      Inr \<lparr> k_address = accountAddress,
                            k_signMessage = viem_signMessage cl viemSigner,
                            k_signTransaction = (\<lambda>tx. Inl SignTransactionNotSupportedBySmartAccount),
                            k_signTypedData = viem_signTypedData cl viemSigner,
                            k_signUserOperation =
                              ecdsa_signUserOperation cl hs viemSigner (e_entryPoint p) cid,
                            k_getDummySignature = ecdsa_getDummySignature \<rparr>)))"

section \<open>The multi-chain dummy signature (getMultiUserOpDummySignature.ts)\<close>





definition dummyEcdsaSig :: hex where
  "dummyEcdsaSig =
     ''0xfffffffffffffffffffffffffffffff00000000000000000000000000000000''
     @ ''07aaaaaaaaaaaaaaaaaaaaaaaaaaaaaaaaaaaaaaaaaaaaaaaaaaaaaaaaaaaaaaa1c''"



section \<open>Example configurations\<close>

text \<open>Concrete collaborators, used to evaluate the definitions: the tables of constants as
  the source comments describe them (one byte each), validators that answer with fixed
  values, a chain accessor and encoders that concatenate their arguments.\<close>

definition exConstants :: constants where
  "exConstants =
     \<lparr> VALIDATOR_MODE_DEFAULT = ''0x00'',
       VALIDATOR_MODE_ENABLE = ''0x01'',
       VALIDATOR_TYPE = (\<lambda>t. case t of SUDO \<Rightarrow> ''0x00'' | SECONDARY \<Rightarrow> ''0x01'' | PERMISSION \<Rightarrow> ''0x02'') \<rparr>"

definition exValidator :: "address \<Rightarrow> validatorTypeKey \<Rightarrow> bool \<Rightarrow> hex \<Rightarrow> kernelValidator" where
  "exValidator addr ty enabled sg =
     \<lparr> v_address = addr,
       v_validatorType = ty,
       v_getNonceKey = Inr 5,
       v_getDummySignature = (\<lambda>uo. Inr ''0xffff''),
       v_signUserOperation = (\<lambda>uo. Inr sg),
       v_getEnableData = Inr ''0x'',
       v_isEnabled = (\<lambda>a sel. Inr enabled),
       v_getIdentifier = addr,
       v_signMessage = (\<lambda>msg. Inr sg),
       v_signTypedData = (\<lambda>td. Inr sg),
       v_signTransaction = (\<lambda>tx. Inl SignTransactionNotSupportedBySmartAccount) \<rparr>"

definition exSudo :: kernelValidator where
  "exSudo = exValidator ''0x1111111111111111111111111111111111111111'' SECONDARY True ''0xaa01''"

definition exRegular :: "bool \<Rightarrow> kernelValidator" where
  "exRegular enabled =
     exValidator ''0x2222222222222222222222222222222222222222'' PERMISSION enabled ''0xbb02''"

definition exClient :: "bool \<Rightarrow> client" where
  "exClient initialized =
     \<lparr> getChainId = Inr 1,
       accountMetadata = (\<lambda>a ep. Inr (Some ''0.2.4'')),
       getKernelV3Nonce = (\<lambda>a. Inr 1),
       isPluginInitialized = (\<lambda>a v. Inr initialized) \<rparr>"

definition exEntryPoint06 :: address where
  "exEntryPoint06 = ''0x5FF137D4b0FDCD49DcA30c7CF57E578a026d2789''"

definition exEntryPoint07 :: address where
  "exEntryPoint07 = ''0x0000000071727De22E5E9d8BAf0edAc6f37da032''"

definition exUtils :: kernelUtils where
  "exUtils =
     \<lparr> getEntryPointVersion = (\<lambda>a. if a = exEntryPoint06 then V06 else V07),
       getActionSelector = (\<lambda>v. if v = V06 then ''0x51945447'' else ''0xe9ae5c53''),
       getPluginsEnableTypedDataV1 = (\<lambda>a cid kv act v vu va. Inr ''typed-data-v1''),
       getPluginsEnableTypedDataV2 = (\<lambda>a cid kv act v n. Inr ''typed-data-v2''),
       encodeEnableDataV1 = (\<lambda>a es act v vu va. Inr (concatHex [v_address v, es])),
       getEncodedPluginsDataV2 = (\<lambda>a act es us v. Inr (concatHex [es, us])) \<rparr>"

definition exParams :: "address \<Rightarrow> kernelValidator option \<Rightarrow> kernelValidator option \<Rightarrow> hex option
    \<Rightarrow> kernelPluginManagerParams" where
  "exParams ep su re es =
     \<lparr> p_sudo = su,
       p_regular = re,
       p_pluginEnableSignature = es,
       p_validatorInitData = None,
       p_executorData = None,
       p_validAfter = None,
       p_validUntil = None,
       p_entryPoint = ep,
       p_kernelVersion = None \<rparr>"

definition exManager :: "address \<Rightarrow> kernelValidator option \<Rightarrow> kernelValidator option
    \<Rightarrow> kernelValidator \<Rightarrow> kernelPluginManager" where
  "exManager ep su re active =
     \<lparr> sudo = su,
       regular = re,
       validatorInitData = None,
       executorData = \<lparr> executor = zeroAddress, selector = ''0x51945447'' \<rparr>,
       validAfter = 0,
       validUntil = 0,
       entryPointAddress = ep,
       kernelVersion = None,
       entryPointVersion = (if ep = exEntryPoint06 then V06 else V07),
       chainId = 1,
       activeValidator = active \<rparr>"

definition exState :: "hex option \<Rightarrow> typedData list \<Rightarrow> managerState" where
  "exState es calls = \<lparr> pluginEnableSignature = es, signTypedDataCalls = calls \<rparr>"

definition exUserOp :: userOperation where
  "exUserOp =
     \<lparr> sender = ''0x3333333333333333333333333333333333333333'',
       nonce = 0,
       initCode = ''0x'',
       callData = ''0x51945447000000000000000000000000'',
       callGasLimit = 0,
       verificationGasLimit = 0,
       preVerificationGas = 0,
       maxFeePerGas = 0,
       maxPriorityFeePerGas = 0,
       paymasterAndData = ''0x'',
       signature = ''0x'' \<rparr>"

text \<open>Collaborators of the validators: a hash that is constant, a relay that verifies every
  ceremony and answers with the client data it is given, an owner that signs with a fixed
  signature, and a stand-in for the Merkle tree library that handles one or two leaves (the
  pair is ordered by value when \<open>sortPairs\<close> is set).\<close>

definition exHashing :: hashing where
  "exHashing =
     \<lparr> getUserOperationHash = (\<lambda>uo ep cid. ''0x'' @ replicate 64 CHR ''1''),
       keccak256 = (\<lambda>h. ''0x'' @ take 64 (remove0x h)),
       hashTypedData = (\<lambda>td. Inr (''0x'' @ replicate 64 CHR ''2'')) \<rparr>"

definition exClientDataShort :: string where
  \<open>exClientDataShort =
     ''{"type":"webauthn.get","challenge":"bbbbbbbbbbbbbbbbbbbbbbbbbbbbbbbbbbbbbbbbbbb",''
     @ ''"origin":"https://example.org"}''\<close>

definition exClientDataLong :: string where
  \<open>exClientDataLong =
     ''{"type":"webauthn.get","challenge":"bbbbbbbbbbbbbbbbbbbbbbbbbbbbbbbbbbbbbbbbbbb",''
     @ ''"origin":"https://example.org","crossOrigin":false}''\<close>

definition exAuthenticatorData :: hex where
  "exAuthenticatorData =
     ''0x49960de5880e8c687434170f6476605b8fe4aeb9a28632c7995cf3ba831d97630500000001''"

definition exEnrollment :: enrollment where
  "exEnrollment =
     \<lparr> verified = True, publicKey = Some (1, 2),
       authenticatorIdHash = ''0x'' @ replicate 64 CHR ''3'' \<rparr>"

definition exServer :: "string \<Rightarrow> passkeyServer" where
  "exServer clientData =
     \<lparr> registerPasskey = (\<lambda>name. Inr exEnrollment),
       loginPasskey = Inr exEnrollment,
       signCeremony =
         (\<lambda>msg. Inr \<lparr> success = True, authenticatorDataHex = exAuthenticatorData,
                        clientDataJSON = clientData, beforeType = 1, sig_r = 3, sig_s = 4 \<rparr>),
       isRIP7212SupportedNetwork = (\<lambda>cid. False) \<rparr>"

definition exValidatorAddress :: address where
  "exValidatorAddress = ''0x6666666666666666666666666666666666666666''"

definition exPasskeyValidator :: "string \<Rightarrow> webAuthnValidator" where
  "exPasskeyValidator clientData =
     passkeyValidator exHashing (exServer clientData) exEntryPoint06 exValidatorAddress 1 1 2
       (''0x'' @ replicate 64 CHR ''3'')"

definition exSigner :: "hex \<Rightarrow> smartAccountSigner" where
  "exSigner sg =
     \<lparr> signer_type = Local,
       signer_address = ''0x4444444444444444444444444444444444444444'',
       signer_signMessage = (\<lambda>msg. Inr sg),
       signer_signTypedData = (\<lambda>td. Inr sg) \<rparr>"

definition exAccountClient :: accountClient where
  "exAccountClient =
     \<lparr> ac_getChainId = Inr 1,
       ac_walletSignMessage = (\<lambda>a msg. Inl (CollaboratorError ''no wallet'')),
       ac_walletSignTypedData = (\<lambda>a td. Inl (CollaboratorError ''no wallet'')),
       ac_ecdsaValidatorStorage = (\<lambda>v a. Inr ''0x4444444444444444444444444444444444444444''),
       ac_getSenderAddress = (\<lambda>code ep. Inr (Some ''0x5555555555555555555555555555555555555555'')),
       ac_encodeInitCode = (\<lambda>owner idx f l v. Inr ''0x'') \<rparr>"

definition exEcdsaParams :: "hex \<Rightarrow> ecdsaAccountParams" where
  "exEcdsaParams sg =
     \<lparr> e_signer = exSigner sg,
       e_entryPoint = exEntryPoint06,
       e_index = 0,
       e_factoryAddress = ''0x5de4839a76cf55d0c90e2061ef4386d962E15ae3'',
       e_accountLogicAddress = ''0x0DA6a956B9488eD4dd761E59f52FDc6c8068E6B5'',
       e_ecdsaValidatorAddress = ''0xd9AB5096a832b9ce79914329DAEE236f8Eea0390'',
       e_deployedAccountAddress = None \<rparr>"

definition exEcdsaAccount :: "hex \<Rightarrow> kernelSmartAccount" where
  "exEcdsaAccount sg =
     \<lparr> k_address = ''0x5555555555555555555555555555555555555555'',
       k_signMessage = viem_signMessage exAccountClient (exSigner sg),
       k_signTransaction = (\<lambda>tx. Inl SignTransactionNotSupportedBySmartAccount),
       k_signTypedData = viem_signTypedData exAccountClient (exSigner sg),
       k_signUserOperation =
         ecdsa_signUserOperation exAccountClient exHashing (exSigner sg) exEntryPoint06 1,
       k_getDummySignature = ecdsa_getDummySignature \<rparr>"

definition exTransaction :: transactionRequest where
  "exTransaction = \<lparr> tx_to = zeroAddress, tx_value = 0, tx_data = ''0x'' \<rparr>"

text \<open>A validator made from a key account: its \<^verbatim>\<open>signTransaction\<close> signs.\<close>

definition exKeyValidator :: kernelValidator where
  "exKeyValidator = exSudo\<lparr> v_signTransaction := (\<lambda>tx. Inr ''0xdeadbeef'') \<rparr>"


section \<open>Hex strings: basic facts\<close>

lemma remove0x_concatHex: "remove0x (concatHex xs) = concat (map remove0x xs)"
  by (simp add: concatHex_def)

lemma concatHex_nested: "concatHex (concatHex xs # ys) = concatHex (xs @ ys)"
  by (simp add: concatHex_def)

lemma hexDigit_table:
  "list_all (\<lambda>d. hexDigitVal (''0123456789abcdef'' ! d) = Some d) [0..<16]"
  by code_simp

lemma hexDigitVal_hexDigit: "hexDigitVal (hexDigit d) = Some (d mod 16)"
proof -
  have "d mod 16 \<in> set [0..<16]" by simp
  then show ?thesis
    using hexDigit_table unfolding hexDigit_def list_all_iff by blast
qed

lemma digitVal_hexDigit: "digitVal (hexDigit d) = d mod 16"
  by (simp add: digitVal_def hexDigitVal_hexDigit)

lemma hexDigitVal_zero: "hexDigitVal CHR ''0'' = Some 0"
  by (simp add: hexDigitVal_def)

lemma digitVal_zero: "digitVal CHR ''0'' = 0"
  by (simp add: digitVal_def hexDigitVal_zero)

lemma foldl_be_shift:
  "foldl (\<lambda>a c. a * 16 + digitVal c) a xs
     = a * 16 ^ length xs + foldl (\<lambda>a c. a * 16 + digitVal c) 0 xs"
proof (induction xs arbitrary: a)
  case Nil then show ?case by simp
next
  case (Cons x xs)
  let ?f = "\<lambda>a c. a * 16 + digitVal c"
  have tail: "foldl ?f (digitVal x) xs = digitVal x * 16 ^ length xs + foldl ?f 0 xs"
    by (rule Cons.IH)
  have "foldl ?f a (x # xs) = foldl ?f (a * 16 + digitVal x) xs" by simp
  also have "\<dots> = (a * 16 + digitVal x) * 16 ^ length xs + foldl ?f 0 xs"
    by (rule Cons.IH)
  also have "\<dots> = a * 16 ^ length (x # xs) + (digitVal x * 16 ^ length xs + foldl ?f 0 xs)"
    by (simp add: add_mult_distrib)
  also have "\<dots> = a * 16 ^ length (x # xs) + foldl ?f (digitVal x) xs"
    by (simp only: tail)
  also have "\<dots> = a * 16 ^ length (x # xs) + foldl ?f 0 (x # xs)" by simp
  finally show ?case .
qed

lemma hexValue_wf:
  "list_all (\<lambda>c. hexDigitVal c \<noteq> None) xs \<Longrightarrow>
   hexValue a xs = Some (foldl (\<lambda>a c. a * 16 + digitVal c) a xs)"
  by (induction xs arbitrary: a) (auto simp: digitVal_def)

lemma toString16_small: "n < 16 \<Longrightarrow> toString16 n = [hexDigit n]"
  by (subst toString16.simps) simp

lemma toString16_big:
  "\<not> n < 16 \<Longrightarrow> toString16 n = toString16 (n div 16) @ [hexDigit (n mod 16)]"
  by (subst toString16.simps) simp

lemma toString16_wf: "list_all (\<lambda>c. hexDigitVal c \<noteq> None) (toString16 n)"
proof (induction n rule: toString16.induct)
  case (1 n)
  show ?case
  proof (cases "n < 16")
    case True then show ?thesis by (simp add: toString16_small hexDigitVal_hexDigit)
  next
    case False
    with 1 show ?thesis by (simp add: toString16_big hexDigitVal_hexDigit)
  qed
qed

lemma toString16_value: "foldl (\<lambda>a c. a * 16 + digitVal c) 0 (toString16 n) = n"
proof (induction n rule: toString16.induct)
  case (1 n)
  show ?case
  proof (cases "n < 16")
    case True then show ?thesis by (simp add: toString16_small digitVal_hexDigit)
  next
    case False
    with 1 show ?thesis by (simp add: toString16_big digitVal_hexDigit)
  qed
qed

lemma toString16_length: "n < 16 ^ k \<Longrightarrow> 0 < k \<Longrightarrow> length (toString16 n) \<le> k"
proof (induction n arbitrary: k rule: toString16.induct)
  case (1 n)
  show ?case
  proof (cases "n < 16")
    case True then show ?thesis using "1.prems" by (simp add: toString16_small)
  next
    case False
    obtain j where k: "k = Suc j" using "1.prems"(2) by (cases k) auto
    have "j \<noteq> 0" using False "1.prems"(1) k by (cases j) auto
    moreover have "n div 16 < 16 ^ j"
      using "1.prems"(1) k by (simp add: less_mult_imp_div_less mult.commute)
    ultimately have "length (toString16 (n div 16)) \<le> j" using "1.IH"[OF False, of j] by simp
    then show ?thesis using False k by (simp add: toString16_big)
  qed
qed

lemma foldl_be_zeros: "foldl (\<lambda>a c. a * 16 + digitVal c) a (replicate n CHR ''0'') = a * 16 ^ n"
  by (induction n arbitrary: a) (simp_all add: digitVal_zero)

lemma list_all_zeros: "list_all (\<lambda>c. hexDigitVal c \<noteq> None) (replicate n CHR ''0'')"
  by (induction n) (simp_all add: hexDigitVal_zero)

lemma isHexOfSize_split:
  assumes "isHexOfSize n h"
  shows "h = ''0x'' @ drop 2 h" and "length (drop 2 h) = 2 * n"
    and "list_all (\<lambda>c. hexDigitVal c \<noteq> None) (drop 2 h)"
proof -
  from assms have t: "take 2 h = ''0x''" by (simp add: isHexOfSize_def)
  have "h = take 2 h @ drop 2 h" by simp
  with t show "h = ''0x'' @ drop 2 h" by simp
  from assms show "length (drop 2 h) = 2 * n" by (simp add: isHexOfSize_def)
  from assms show "list_all (\<lambda>c. hexDigitVal c \<noteq> None) (drop 2 h)" by (simp add: isHexOfSize_def)
qed

lemma remove0x_hex: "isHexOfSize n h \<Longrightarrow> remove0x h = drop 2 h"
proof -
  assume "isHexOfSize n h"
  then have "h = ''0x'' @ drop 2 h" by (rule isHexOfSize_split)
  then have "remove0x h = remove0x (''0x'' @ drop 2 h)" by simp
  then show ?thesis by simp
qed

lemma be_append:
  "foldl (\<lambda>a c. a * 16 + digitVal c) 0 (xs @ ys)
     = foldl (\<lambda>a c. a * 16 + digitVal c) 0 xs * 16 ^ length ys
       + foldl (\<lambda>a c. a * 16 + digitVal c) 0 ys"
proof -
  have "foldl (\<lambda>a c. a * 16 + digitVal c) 0 (xs @ ys)
        = foldl (\<lambda>a c. a * 16 + digitVal c) (foldl (\<lambda>a c. a * 16 + digitVal c) 0 xs) ys"
    by (rule foldl_append)
  also have "\<dots> = foldl (\<lambda>a c. a * 16 + digitVal c) 0 xs * 16 ^ length ys
       + foldl (\<lambda>a c. a * 16 + digitVal c) 0 ys"
    by (rule foldl_be_shift)
  finally show ?thesis .
qed

lemma subKey_digits:
  assumes "0 \<le> sk" and "sk < 65536"
  shows "\<exists>ds. (case toHex sk of Inl e \<Rightarrow> Inl e | Inr h \<Rightarrow> pad h 2) = Inr (''0x'' @ ds)
           \<and> length ds = 4 \<and> list_all (\<lambda>c. hexDigitVal c \<noteq> None) ds
           \<and> foldl (\<lambda>a c. a * 16 + digitVal c) 0 ds = nat sk"
proof -
  let ?d = "toString16 (nat sk)"
  have "nat sk < 16 ^ 4" using assms by simp
  then have len: "length ?d \<le> 4" by (rule toString16_length) simp
  let ?ds = "replicate (4 - length ?d) CHR ''0'' @ ?d"
  have "(case toHex sk of Inl e \<Rightarrow> Inl e | Inr h \<Rightarrow> pad h 2) = Inr (''0x'' @ ?ds)"
    using assms(1) len by (simp add: toHex_def pad_def Let_def)
  moreover have "length ?ds = 4" using len by simp
  moreover have "list_all (\<lambda>c. hexDigitVal c \<noteq> None) ?ds"
    using list_all_zeros[of "4 - length ?d"] toString16_wf[of "nat sk"] by simp
  moreover have "foldl (\<lambda>a c. a * 16 + digitVal c) 0 ?ds = nat sk"
    by (simp only: be_append foldl_be_zeros toString16_value)
  ultimately show ?thesis by blast
qed

lemma nonceKey_assemble:
  assumes md: "isHexOfSize 1 md" and ty: "isHexOfSize 1 ty" and idt: "isHexOfSize 20 ident"
    and sk: "0 \<le> sk" "sk < 65536"
  shows "(case toHex sk of
            Inl e \<Rightarrow> Inl e
          | Inr h \<Rightarrow>
         (case pad h 2 of
            Inl e \<Rightarrow> Inl e
          | Inr subKey \<Rightarrow>
         (case pad (concatHex [md, ty, ident, subKey]) 24 of
            Inl e \<Rightarrow> Inl e
          | Inr padded \<Rightarrow> BigInt padded)))
         = Inr (nonceKeyValue md ty ident sk)"
proof -
  let ?v = "foldl (\<lambda>a c. a * 16 + digitVal c) 0"
  obtain ds where sub: "(case toHex sk of Inl e \<Rightarrow> Inl e | Inr h \<Rightarrow> pad h 2) = Inr (''0x'' @ ds)"
    and dlen: "length ds = 4" and dwf: "list_all (\<lambda>c. hexDigitVal c \<noteq> None) ds"
    and dval: "?v ds = nat sk"
    using subKey_digits[OF sk] by blast
  obtain h where h: "toHex sk = Inr h" and ph: "pad h 2 = Inr (''0x'' @ ds)"
    using sub by (cases "toHex sk") auto
  let ?A = "drop 2 md" and ?B = "drop 2 ty" and ?C = "drop 2 ident"
  note A = isHexOfSize_split[OF md] and B = isHexOfSize_split[OF ty] and C = isHexOfSize_split[OF idt]
  let ?X = "?A @ ?B @ ?C @ ds"
  have cat: "concatHex [md, ty, ident, ''0x'' @ ds] = ''0x'' @ ?X"
    by (simp add: concatHex_def remove0x_hex[OF md] remove0x_hex[OF ty] remove0x_hex[OF idt])
  have lenX: "length ?X = 48" using A(2) B(2) C(2) dlen by simp
  have padX: "pad (''0x'' @ ?X) 24 = Inr (''0x'' @ ?X)"
    using lenX by (simp add: pad_def Let_def)
  have wfX: "list_all (\<lambda>c. hexDigitVal c \<noteq> None) ?X"
    using A(3) B(3) C(3) dwf by simp
  have "?X \<noteq> []" using lenX by auto
  then have big: "BigInt (''0x'' @ ?X) = Inr (int (?v ?X))"
    using hexValue_wf[OF wfX, of 0] by (simp add: BigInt_def)
  have "?v ?X = ?v ?A * 16 ^ 46 + ?v ?B * 16 ^ 44 + ?v ?C * 16 ^ 4 + nat sk"
    using A(2) B(2) C(2) dlen dval
    by (simp only: be_append length_append) (simp add: algebra_simps)
  then have val: "int (?v ?X) = nonceKeyValue md ty ident sk"
    using sk(1) by (simp add: nonceKeyValue_def bigEndian_def)
  show ?thesis
    by (simp only: h ph sum.case cat padX big val)
qed

section \<open>The plugin manager: construction and the enable signature\<close>

lemma toKernelPluginManager_Inr:
  assumes "toKernelPluginManager cl ku p = Inr (m, st)"
  shows "sudo m = p_sudo p" and "regular m = p_regular p"
    and "entryPointVersion m = getEntryPointVersion ku (p_entryPoint p)"
    and "p_regular p = Some r \<Longrightarrow> activeValidator m = r"
    and "p_regular p = None \<Longrightarrow> p_sudo p = Some (activeValidator m)"
    and "pluginEnableSignature st = p_pluginEnableSignature p"
    and "signTypedDataCalls st = []"
  using assms
  by (auto simp: toKernelPluginManager_def Let_def split: sum.splits option.splits)

lemma cached_call:
  "pluginEnableSignature st = Some s \<Longrightarrow> s \<noteq> [] \<Longrightarrow>
   getPluginEnableSignature cl ku m a st = (Inr s, st)"
  by (simp add: getPluginEnableSignature_def)

lemma cached_calls:
  "pluginEnableSignature st = Some s \<Longrightarrow> s \<noteq> [] \<Longrightarrow>
   enableSignatureCalls cl ku m as st = (map (\<lambda>a. Inr s) as, st)"
  by (induction as) (simp_all add: cached_call)

lemma signPluginEnable_v06_caches:
  assumes "entryPointVersion m = V06" and "signPluginEnable cl ku m a st = (Inr s, st')"
  shows "pluginEnableSignature st' = Some s"
  using assms
  by (auto simp: signPluginEnable_def Let_def split: sum.splits option.splits if_splits)

lemma getPluginEnableSignature_v06_caches:
  assumes "entryPointVersion m = V06" and "getPluginEnableSignature cl ku m a st = (Inr s, st')"
    and "s \<noteq> []"
  shows "enableSignatureCalls cl ku m as st' = (map (\<lambda>a. Inr s) as, st')"
proof -
  have "pluginEnableSignature st' = Some s"
    using assms signPluginEnable_v06_caches[OF assms(1)]
    by (auto simp: getPluginEnableSignature_def split: option.splits if_splits)
  then show ?thesis using assms(3) by (rule cached_calls)
qed

lemmas ex_defs = exClient_def exUtils_def exParams_def exManager_def exState_def exValidator_def
  exSudo_def exRegular_def exEntryPoint06_def exEntryPoint07_def exUserOp_def exConstants_def

lemma ex_manager_built:
  "toKernelPluginManager (exClient ini) exUtils (exParams exEntryPoint06 su (Some re) es)
     = Inr (exManager exEntryPoint06 su (Some re) re, exState es [])"
  "toKernelPluginManager (exClient ini) exUtils (exParams exEntryPoint07 su (Some re) es)
     = Inr (exManager exEntryPoint07 su (Some re) re, exState es [])"
  "toKernelPluginManager (exClient ini) exUtils (exParams exEntryPoint06 (Some s) None es)
     = Inr (exManager exEntryPoint06 (Some s) None s, exState es [])"
  "toKernelPluginManager (exClient ini) exUtils (exParams exEntryPoint07 (Some s) None es)
     = Inr (exManager exEntryPoint07 (Some s) None s, exState es [])"
  by (simp_all add: toKernelPluginManager_def exClient_def exUtils_def exParams_def exManager_def
      exState_def exEntryPoint06_def exEntryPoint07_def)

text \<open>
  C8. A manager constructed with a pre-supplied \<^verbatim>\<open>pluginEnableSignature\<close> returns that value
  from every call of \<^verbatim>\<open>getPluginEnableSignature\<close>, whatever the account address: the state
  is the one the constructor made, so no typed data was signed, and neither the sudo nor the
  regular validator is looked at (the manager is any manager the constructor returns, with
  or without a sudo validator). The pre-supplied value is a \<^verbatim>\<open>Hex\<close> string, hence not the
  empty string.
\<close>

theorem presupplied_enable_signature_returned:
  assumes "toKernelPluginManager cl ku p = Inr (m, st0)"
    and "p_pluginEnableSignature p = Some s" and "s \<noteq> []"
  shows "enableSignatureCalls cl ku m accounts st0 = (map (\<lambda>a. Inr s) accounts, st0)
         \<and> signTypedDataCalls st0 = []"
  using assms toKernelPluginManager_Inr(6,7)[OF assms(1)] by (simp add: cached_calls)

theorem presupplied_enable_signature_returned_witness:
  "enableSignatureCalls (exClient False) exUtils
     (exManager exEntryPoint07 None (Some (exRegular False)) (exRegular False))
     [sender exUserOp, zeroAddress, sender exUserOp] (exState (Some ''0xc0de'') [])
   = ([Inr ''0xc0de'', Inr ''0xc0de'', Inr ''0xc0de''], exState (Some ''0xc0de'') [])
   \<and> signTypedDataCalls (exState (Some ''0xc0de'') []) = []
   \<and> sudo (exManager exEntryPoint07 None (Some (exRegular False)) (exRegular False)) = None"
  using presupplied_enable_signature_returned
    [OF ex_manager_built(2) [of False None "exRegular False" "Some ''0xc0de''"],
     of "''0xc0de''" "[sender exUserOp, zeroAddress, sender exUserOp]"]
  by (simp add: exParams_def exManager_def)

text \<open>
  C3. Repeated calls of \<^verbatim>\<open>getPluginEnableSignature\<close> sign at most once. On v0.6 this holds
  (\<open>getPluginEnableSignature_v06_caches\<close> above: after a call that returned a signature,
  every later call returns it from the captured variable). On v0.7 the signature is returned
  without being stored: two calls on a v0.7 manager with a sudo and a regular validator hand
  typed data to \<^verbatim>\<open>sudo.signTypedData\<close> twice, and the captured variable is still undefined
  afterwards.
\<close>

theorem getPluginEnableSignature_v07_signs_again:
  "enableSignatureCalls (exClient False) exUtils
     (exManager exEntryPoint07 (Some exSudo) (Some (exRegular False)) (exRegular False))
     [sender exUserOp, sender exUserOp] (exState None [])
   = ([Inr ''0xaa01'', Inr ''0xaa01''], exState None [''typed-data-v2'', ''typed-data-v2''])"
  by (simp add: ex_defs getPluginEnableSignature_def signPluginEnable_def)

text \<open>The same two calls on the v0.6 manager: one signing, and the result is stored.\<close>

lemma getPluginEnableSignature_v06_signs_once:
  "enableSignatureCalls (exClient False) exUtils
     (exManager exEntryPoint06 (Some exSudo) (Some (exRegular False)) (exRegular False))
     [sender exUserOp, sender exUserOp] (exState None [])
   = ([Inr ''0xaa01'', Inr ''0xaa01''], exState (Some ''0xaa01'') [''typed-data-v1''])"
  by (simp add: ex_defs getPluginEnableSignature_def signPluginEnable_def)

section \<open>The plugin manager: mode selection and the signature envelope\<close>

text \<open>
  C1. On v0.6, with \<open>userOpSig\<close> the signature of the active validator:
  without a regular validator the envelope is \<^verbatim>\<open>0x00000000 || userOpSig\<close>; with a regular
  validator that \<^verbatim>\<open>isEnabled(sender, first four bytes of callData)\<close> reports enabled it is
  \<^verbatim>\<open>0x00000001 || userOpSig\<close>; with a regular validator reported not enabled, once the enable
  signature has been obtained and encoded, it is \<^verbatim>\<open>0x00000002\<close>, the encoded enable data and
  \<open>userOpSig\<close>.
\<close>

theorem signUserOperation_v06_envelope:
  assumes "toKernelPluginManager cl ku p = Inr (m, st0)"
    and "entryPointVersion m = V06"
    and "v_signUserOperation (activeValidator m) uo = Inr userOpSig"
  shows "(regular m = None \<longrightarrow>
            signUserOperation cl ku m uo st = (Inr (concatHex [''0x00000000'', userOpSig]), st))
       \<and> (\<forall>r. regular m = Some r \<longrightarrow>
              v_isEnabled r (sender uo) (take 10 (callData uo)) = Inr True \<longrightarrow>
            signUserOperation cl ku m uo st = (Inr (concatHex [''0x00000001'', userOpSig]), st))
       \<and> (\<forall>r es st' enc. regular m = Some r \<longrightarrow>
              v_isEnabled r (sender uo) (take 10 (callData uo)) = Inr False \<longrightarrow>
              getPluginEnableSignature cl ku m (sender uo) st = (Inr es, st') \<longrightarrow> es \<noteq> [] \<longrightarrow>
              encodeEnableDataV1 ku (sender uo) es (executorData m) r (validUntil m) (validAfter m)
                = Inr enc \<longrightarrow>
            signUserOperation cl ku m uo st
              = (Inr (concatHex [''0x00000002'', enc, userOpSig]), st'))"
proof (intro conjI allI impI)
  assume none: "regular m = None"
  then have "sudo m = Some (activeValidator m)"
    using toKernelPluginManager_Inr(1,2,5)[OF assms(1)] by simp
  then show "signUserOperation cl ku m uo st = (Inr (concatHex [''0x00000000'', userOpSig]), st)"
    using assms(2,3) none
    by (simp add: signUserOperation_def getSignatureData_def ValidatorMode_sudo_def)
next
  fix r
  assume "regular m = Some r" "v_isEnabled r (sender uo) (take 10 (callData uo)) = Inr True"
  then show "signUserOperation cl ku m uo st = (Inr (concatHex [''0x00000001'', userOpSig]), st)"
    using assms(2,3)
    by (simp add: signUserOperation_def getSignatureData_def isPluginEnabled_def
        ValidatorMode_plugin_def)
next
  fix r es st' enc
  assume "regular m = Some r" "v_isEnabled r (sender uo) (take 10 (callData uo)) = Inr False"
    "getPluginEnableSignature cl ku m (sender uo) st = (Inr es, st')" "es \<noteq> []"
    "encodeEnableDataV1 ku (sender uo) es (executorData m) r (validUntil m) (validAfter m) = Inr enc"
  then show "signUserOperation cl ku m uo st
              = (Inr (concatHex [''0x00000002'', enc, userOpSig]), st')"
    using assms(2,3)
    by (simp add: signUserOperation_def getSignatureData_def isPluginEnabled_def
        getEncodedPluginsDataV1_def ValidatorMode_enable_def concatHex_def)
qed

theorem signUserOperation_v06_envelope_witness:
  "signUserOperation (exClient False) exUtils
     (exManager exEntryPoint06 (Some exSudo) None exSudo) exUserOp (exState None [])
     = (Inr ''0x00000000aa01'', exState None [])
   \<and> signUserOperation (exClient False) exUtils
     (exManager exEntryPoint06 (Some exSudo) (Some (exRegular True)) (exRegular True)) exUserOp
     (exState None [])
     = (Inr ''0x00000001bb02'', exState None [])
   \<and> signUserOperation (exClient False) exUtils
     (exManager exEntryPoint06 (Some exSudo) (Some (exRegular False)) (exRegular False)) exUserOp
     (exState None [])
     = (Inr ''0x000000022222222222222222222222222222222222222222aa01bb02'',
        exState (Some ''0xaa01'') [''typed-data-v1''])"
proof -
  have v06: "\<And>su re a. entryPointVersion (exManager exEntryPoint06 su re a) = V06"
    by (simp add: exManager_def)
  have a: "v_signUserOperation (activeValidator (exManager exEntryPoint06 (Some exSudo) None exSudo))
             exUserOp = Inr ''0xaa01''"
    by (simp add: exManager_def exSudo_def exValidator_def)
  have b: "\<And>en. v_signUserOperation
             (activeValidator (exManager exEntryPoint06 (Some exSudo) (Some (exRegular en)) (exRegular en)))
             exUserOp = Inr ''0xbb02''"
    by (simp add: exManager_def exRegular_def exValidator_def)
  note t1 = signUserOperation_v06_envelope
    [OF ex_manager_built(3) [of False exSudo None] v06 a, of "exState None []"]
  note t2 = signUserOperation_v06_envelope
    [OF ex_manager_built(1) [of False "Some exSudo" "exRegular True" None] v06 b,
     of "exState None []"]
  note t3 = signUserOperation_v06_envelope
    [OF ex_manager_built(1) [of False "Some exSudo" "exRegular False" None] v06 b,
     of "exState None []"]
  have c1: "signUserOperation (exClient False) exUtils
     (exManager exEntryPoint06 (Some exSudo) None exSudo) exUserOp (exState None [])
     = (Inr ''0x00000000aa01'', exState None [])"
    using t1 by (simp add: exManager_def concatHex_def)
  have c2: "signUserOperation (exClient False) exUtils
     (exManager exEntryPoint06 (Some exSudo) (Some (exRegular True)) (exRegular True)) exUserOp
     (exState None [])
     = (Inr ''0x00000001bb02'', exState None [])"
    using t2 by (simp add: exManager_def exRegular_def exValidator_def exUserOp_def concatHex_def)
  have g: "getPluginEnableSignature (exClient False) exUtils
     (exManager exEntryPoint06 (Some exSudo) (Some (exRegular False)) (exRegular False))
     (sender exUserOp) (exState None [])
     = (Inr ''0xaa01'', exState (Some ''0xaa01'') [''typed-data-v1''])"
    by (simp add: ex_defs getPluginEnableSignature_def signPluginEnable_def)
  have c3: "signUserOperation (exClient False) exUtils
     (exManager exEntryPoint06 (Some exSudo) (Some (exRegular False)) (exRegular False)) exUserOp
     (exState None [])
     = (Inr ''0x000000022222222222222222222222222222222222222222aa01bb02'',
        exState (Some ''0xaa01'') [''typed-data-v1''])"
    using t3 g by (simp add: ex_defs concatHex_def)
  from c1 c2 c3 show ?thesis by simp
qed

text \<open>
  C4 as stated fails: in ENABLE mode a pre-supplied enable signature of zero bytes, the string
  \<^verbatim>\<open>0x\<close>, is truthy, and both the v0.6 and the v0.7 assembly return an envelope.
\<close>

theorem empty_enable_signature_accepted:
  "size_hex ''0x'' = 0
   \<and> getSignatureData (exClient False) exUtils
       (exManager exEntryPoint06 None (Some (exRegular False)) (exRegular False))
       (sender exUserOp) ''0x51945447'' ''0x'' (exState (Some ''0x'') [])
     = (Inr ''0x000000022222222222222222222222222222222222222222'', exState (Some ''0x'') [])
   \<and> getSignatureData (exClient False) exUtils
       (exManager exEntryPoint07 None (Some (exRegular False)) (exRegular False))
       (sender exUserOp) ''0x51945447'' ''0xbb02'' (exState (Some ''0x'') [])
     = (Inr ''0xbb02'', exState (Some ''0x'') [])"
  by (simp add: ex_defs size_hex_def getSignatureData_def isPluginEnabled_def
      getPluginEnableSignature_def getEncodedPluginsDataV1_def ValidatorMode_enable_def concatHex_def)

text \<open>
  C4, amended. On v0.6, for a regular validator reported not enabled: when
  \<^verbatim>\<open>getPluginEnableSignature\<close> returns the empty string the assembly fails with
  \<open>EnableSignatureNotSet\<close>, and when it returns any other string (the zero-byte \<^verbatim>\<open>0x\<close>
  included) the result is that of the encoder; when no enable signature is stored and no sudo
  validator is configured, the assembly fails with \<open>SudoValidatorNotSet\<close>. (A \<^verbatim>\<open>Hex\<close> string
  starts with \<^verbatim>\<open>0x\<close>, so the empty string can only come from a validator that does not
  keep to its type, as the sudo validator of the example below.)
\<close>

theorem getSignatureData_v06_enable_guard:
  assumes "entryPointVersion m = V06" and "regular m = Some r"
    and "v_isEnabled r a sel = Inr False"
  shows "(\<forall>es st'. getPluginEnableSignature cl ku m a st = (Inr es, st') \<longrightarrow>
            getSignatureData cl ku m a sel us st =
              (if es = [] then (Inl EnableSignatureNotSet, st')
               else (getEncodedPluginsDataV1 ku a es (executorData m) r (validUntil m) (validAfter m), st')))
       \<and> (\<not> truthy (pluginEnableSignature st) \<longrightarrow> sudo m = None \<longrightarrow>
            getSignatureData cl ku m a sel us st = (Inl SudoValidatorNotSet, st))"
  using assms
  by (auto simp: getSignatureData_def isPluginEnabled_def getPluginEnableSignature_def
      signPluginEnable_def split: option.splits)

theorem getSignatureData_v06_enable_guard_witness:
  "getSignatureData (exClient False) exUtils
     (exManager exEntryPoint06 (Some (exValidator zeroAddress SECONDARY True []))
        (Some (exRegular False)) (exRegular False))
     (sender exUserOp) ''0x51945447'' ''0x'' (exState None [])
     = (Inl EnableSignatureNotSet, exState (Some []) [''typed-data-v1''])
   \<and> getSignatureData (exClient False) exUtils
     (exManager exEntryPoint06 None (Some (exRegular False)) (exRegular False))
     (sender exUserOp) ''0x51945447'' ''0x'' (exState None [])
     = (Inl SudoValidatorNotSet, exState None [])"
proof -
  let ?m = "exManager exEntryPoint06 (Some (exValidator zeroAddress SECONDARY True []))
        (Some (exRegular False)) (exRegular False)"
  let ?n = "exManager exEntryPoint06 None (Some (exRegular False)) (exRegular False)"
  have g: "getPluginEnableSignature (exClient False) exUtils ?m (sender exUserOp) (exState None [])
     = (Inr [], exState (Some []) [''typed-data-v1''])"
    by (simp add: ex_defs zeroAddress_def getPluginEnableSignature_def signPluginEnable_def)
  have h: "v_isEnabled (exRegular False) (sender exUserOp) ''0x51945447'' = Inr False"
    by (simp add: exRegular_def exValidator_def)
  note t1 = getSignatureData_v06_enable_guard
    [of ?m "exRegular False" "sender exUserOp" "''0x51945447''" "exClient False" exUtils
       "exState None []" "''0x''", OF _ _ h]
  note t2 = getSignatureData_v06_enable_guard
    [of ?n "exRegular False" "sender exUserOp" "''0x51945447''" "exClient False" exUtils
       "exState None []" "''0x''", OF _ _ h]
  have c1: "getSignatureData (exClient False) exUtils ?m (sender exUserOp) ''0x51945447'' ''0x''
      (exState None []) = (Inl EnableSignatureNotSet, exState (Some []) [''typed-data-v1''])"
    using t1 g by (simp add: exManager_def)
  have c2: "getSignatureData (exClient False) exUtils ?n (sender exUserOp) ''0x51945447'' ''0x''
      (exState None []) = (Inl SudoValidatorNotSet, exState None [])"
    using t2 by (simp add: exManager_def exState_def)
  from c1 c2 show ?thesis by simp
qed

section \<open>The nonce key\<close>

lemma exConstants_wf:
  "isHexOfSize 1 (VALIDATOR_MODE_DEFAULT exConstants)"
  "isHexOfSize 1 (VALIDATOR_MODE_ENABLE exConstants)"
  "isHexOfSize 1 (VALIDATOR_TYPE exConstants t)"
  by (cases t; simp add: exConstants_def isHexOfSize_def hexDigitVal_def)+

lemma exValidator_identifier_wf:
  "isHexOfSize 20 (v_getIdentifier exSudo)" "isHexOfSize 20 (v_getIdentifier (exRegular en))"
  by (simp_all add: exSudo_def exRegular_def exValidator_def isHexOfSize_def hexDigitVal_def)

lemma nonceKey_unfold:
  assumes "entryPointVersion m = V07" and "getValidatorMode k cl m a = Inr md"
    and "v_getNonceKey (activeValidator m) = Inr sk"
  shows "getNonceKey k cl m a =
     (case toHex sk of
        Inl e \<Rightarrow> Inl e
      | Inr h \<Rightarrow>
     (case pad h 2 of
        Inl e \<Rightarrow> Inl e
      | Inr subKey \<Rightarrow>
     (case pad (concatHex [md,
                 (case regular m of
                    Some r \<Rightarrow> VALIDATOR_TYPE k (v_validatorType r)
                  | None \<Rightarrow> VALIDATOR_TYPE k SUDO),
                 v_getIdentifier (activeValidator m), subKey]) 24 of
        Inl e \<Rightarrow> Inl e
      | Inr padded \<Rightarrow> BigInt padded)))"
  using assms by (simp add: getNonceKey_def Let_def)

lemma nonceKeyValue_examples:
  "nonceKeyValue ''0x00'' ''0x02'' ''0x2222222222222222222222222222222222222222'' 5
     = 204332738782118514447779603620041224482498549624471557"
  "nonceKeyValue ''0x01'' ''0x02'' ''0x2222222222222222222222222222222222222222'' 5
     = 24724261392636340248181332038024988162382324504562106373"
  "nonceKeyValue ''0x00'' ''0x00'' ''0x1111111111111111111111111111111111111111'' 5
     = 6385398086941203576493112613126288265078079675760645"
  by (simp_all add: nonceKeyValue_def bigEndian_def digitVal_def hexDigitVal_def)

text \<open>
  C2 as stated fails: with a regular validator that \<^verbatim>\<open>isEnabled\<close> reports not enabled for
  the action selector, and an account on which \<^verbatim>\<open>isPluginInitialized\<close> holds, the mode byte of
  the nonce key is DEFAULT, not ENABLE.
\<close>

theorem getNonceKey_mode_counterexample:
  "regular (exManager exEntryPoint07 (Some exSudo) (Some (exRegular False)) (exRegular False))
     = Some (exRegular False)
   \<and> v_isEnabled (exRegular False) zeroAddress
       (selector (executorData
          (exManager exEntryPoint07 (Some exSudo) (Some (exRegular False)) (exRegular False))))
     = Inr False
   \<and> getNonceKey exConstants (exClient True)
       (exManager exEntryPoint07 (Some exSudo) (Some (exRegular False)) (exRegular False))
       zeroAddress
     = Inr (nonceKeyValue (VALIDATOR_MODE_DEFAULT exConstants) ''0x02''
              ''0x2222222222222222222222222222222222222222'' 5)
   \<and> nonceKeyValue (VALIDATOR_MODE_DEFAULT exConstants) ''0x02''
         ''0x2222222222222222222222222222222222222222'' 5
       \<noteq> nonceKeyValue (VALIDATOR_MODE_ENABLE exConstants) ''0x02''
           ''0x2222222222222222222222222222222222222222'' 5"
proof -
  let ?m = "exManager exEntryPoint07 (Some exSudo) (Some (exRegular False)) (exRegular False)"
  have v07: "entryPointVersion ?m = V07"
    by (simp add: exManager_def exEntryPoint06_def exEntryPoint07_def)
  have mode: "getValidatorMode exConstants (exClient True) ?m zeroAddress = Inr ''0x00''"
    by (simp add: getValidatorMode_def isPluginEnabled_def ex_defs)
  have nk: "v_getNonceKey (activeValidator ?m) = Inr 5"
    by (simp add: exManager_def exRegular_def exValidator_def)
  have idt: "isHexOfSize 20 (v_getIdentifier (activeValidator ?m))"
    using exValidator_identifier_wf(2)[of False] by (simp add: exManager_def)
  have ty: "(case regular ?m of Some r \<Rightarrow> VALIDATOR_TYPE exConstants (v_validatorType r)
             | None \<Rightarrow> VALIDATOR_TYPE exConstants SUDO) = ''0x02''"
    by (simp add: exManager_def exRegular_def exValidator_def exConstants_def)
  have wf: "isHexOfSize 1 ''0x00''" "isHexOfSize 1 ''0x02''"
    by (simp_all add: isHexOfSize_def hexDigitVal_def)
  have "getNonceKey exConstants (exClient True) ?m zeroAddress
        = Inr (nonceKeyValue ''0x00'' ''0x02'' (v_getIdentifier (activeValidator ?m)) 5)"
    unfolding nonceKey_unfold[OF v07 mode nk] ty
    by (rule nonceKey_assemble[OF wf idt]) simp_all
  then have key: "getNonceKey exConstants (exClient True) ?m zeroAddress
        = Inr (nonceKeyValue ''0x00'' ''0x02'' ''0x2222222222222222222222222222222222222222'' 5)"
    by (simp add: exManager_def exRegular_def exValidator_def)
  show ?thesis
    using key nonceKeyValue_examples(1,2)
    by (simp add: exManager_def exRegular_def exValidator_def exConstants_def)
qed

text \<open>
  C2, amended. On v0.7, with one-byte mode and type constants, a 20-byte identifier of the
  active validator and a nonce sub-key below \<open>2^16\<close>, \<^verbatim>\<open>getNonceKey\<close> returns the big-endian
  integer of \<^verbatim>\<open>mode || validatorType || identifier || subKey\<close> (24 bytes), where the validator
  type is that of the regular validator if there is one and SUDO otherwise, the identifier
  and the sub-key are those of the active validator (the regular one if present, else the
  sudo one), and the mode is ENABLE exactly when a regular validator exists, is reported not
  enabled for the action selector and is not reported initialized on the account; otherwise
  it is DEFAULT.
\<close>

theorem getNonceKey_v07:
  assumes mk: "toKernelPluginManager cl ku p = Inr (m, st0)"
    and v07: "entryPointVersion m = V07"
    and kd: "isHexOfSize 1 (VALIDATOR_MODE_DEFAULT k)"
    and ke: "isHexOfSize 1 (VALIDATOR_MODE_ENABLE k)"
    and kt: "\<And>t. isHexOfSize 1 (VALIDATOR_TYPE k t)"
    and idt: "isHexOfSize 20 (v_getIdentifier (activeValidator m))"
    and nk: "v_getNonceKey (activeValidator m) = Inr subKey" "0 \<le> subKey" "subKey < 65536"
    and en: "\<forall>r. regular m = Some r \<longrightarrow>
               v_isEnabled r a (selector (executorData m)) = Inr enabled
               \<and> (enabled \<or> isPluginInitialized cl a (v_address r) = Inr initialized)"
  shows "getNonceKey k cl m a =
           Inr (nonceKeyValue
                  (if regular m \<noteq> None \<and> \<not> enabled \<and> \<not> initialized
                   then VALIDATOR_MODE_ENABLE k else VALIDATOR_MODE_DEFAULT k)
                  (case regular m of
                     Some r \<Rightarrow> VALIDATOR_TYPE k (v_validatorType r)
                   | None \<Rightarrow> VALIDATOR_TYPE k SUDO)
                  (v_getIdentifier (activeValidator m)) subKey)
         \<and> (case regular m of
               Some r \<Rightarrow> activeValidator m = r
             | None \<Rightarrow> sudo m = Some (activeValidator m))"
proof
  let ?md = "if regular m \<noteq> None \<and> \<not> enabled \<and> \<not> initialized
             then VALIDATOR_MODE_ENABLE k else VALIDATOR_MODE_DEFAULT k"
  let ?ty = "case regular m of Some r \<Rightarrow> VALIDATOR_TYPE k (v_validatorType r)
                             | None \<Rightarrow> VALIDATOR_TYPE k SUDO"
  have mode: "getValidatorMode k cl m a = Inr ?md"
  proof (cases "regular m")
    case None
    then show ?thesis by (simp add: getValidatorMode_def)
  next
    case (Some r)
    with en have e: "v_isEnabled r a (selector (executorData m)) = Inr enabled"
      and i: "enabled \<or> isPluginInitialized cl a (v_address r) = Inr initialized" by auto
    show ?thesis
    proof (cases enabled)
      case True
      with Some e v07 show ?thesis by (simp add: getValidatorMode_def isPluginEnabled_def)
    next
      case False
      with i have "isPluginInitialized cl a (v_address r) = Inr initialized" by simp
      with Some e v07 False show ?thesis
        by (cases initialized) (simp_all add: getValidatorMode_def isPluginEnabled_def)
    qed
  qed
  have mdwf: "isHexOfSize 1 ?md" using kd ke by simp
  have tywf: "isHexOfSize 1 ?ty" using kt by (cases "regular m") simp_all
  show "getNonceKey k cl m a = Inr (nonceKeyValue ?md ?ty (v_getIdentifier (activeValidator m)) subKey)"
    unfolding nonceKey_unfold[OF v07 mode nk(1)]
    by (rule nonceKey_assemble[OF mdwf tywf idt nk(2,3)])
  show "case regular m of Some r \<Rightarrow> activeValidator m = r
        | None \<Rightarrow> sudo m = Some (activeValidator m)"
  proof (cases "regular m")
    case None
    then show ?thesis using toKernelPluginManager_Inr(1,2,5)[OF mk] by simp
  next
    case (Some r)
    then have "p_regular p = Some r" using toKernelPluginManager_Inr(2)[OF mk] by simp
    from toKernelPluginManager_Inr(4)[OF mk this] Some show ?thesis by simp
  qed
qed

theorem getNonceKey_v07_witness:
  "getNonceKey exConstants (exClient False)
     (exManager exEntryPoint07 (Some exSudo) (Some (exRegular False)) (exRegular False)) zeroAddress
     = Inr 24724261392636340248181332038024988162382324504562106373
   \<and> getNonceKey exConstants (exClient True)
     (exManager exEntryPoint07 (Some exSudo) (Some (exRegular False)) (exRegular False)) zeroAddress
     = Inr 204332738782118514447779603620041224482498549624471557
   \<and> getNonceKey exConstants (exClient False)
     (exManager exEntryPoint07 (Some exSudo) None exSudo) zeroAddress
     = Inr 6385398086941203576493112613126288265078079675760645"
proof -
  let ?m = "exManager exEntryPoint07 (Some exSudo) (Some (exRegular False)) (exRegular False)"
  let ?n = "exManager exEntryPoint07 (Some exSudo) None exSudo"
  have v07: "\<And>su re a. entryPointVersion (exManager exEntryPoint07 su re a) = V07"
    by (simp add: exManager_def exEntryPoint06_def exEntryPoint07_def)
  have idm: "isHexOfSize 20 (v_getIdentifier (activeValidator ?m))"
    using exValidator_identifier_wf(2)[of False] by (simp add: exManager_def)
  have idn: "isHexOfSize 20 (v_getIdentifier (activeValidator ?n))"
    using exValidator_identifier_wf(1) by (simp add: exManager_def)
  have nkm: "v_getNonceKey (activeValidator ?m) = Inr 5"
    by (simp add: exManager_def exRegular_def exValidator_def)
  have nkn: "v_getNonceKey (activeValidator ?n) = Inr 5"
    by (simp add: exManager_def exSudo_def exValidator_def)
  have enm: "\<And>ini. \<forall>r. regular ?m = Some r \<longrightarrow>
               v_isEnabled r zeroAddress (selector (executorData ?m)) = Inr False
               \<and> (False \<or> isPluginInitialized (exClient ini) zeroAddress (v_address r) = Inr ini)"
    by (simp add: exManager_def exRegular_def exValidator_def exClient_def)
  have enn: "\<forall>r. regular ?n = Some r \<longrightarrow>
               v_isEnabled r zeroAddress (selector (executorData ?n)) = Inr False
               \<and> (False \<or> isPluginInitialized (exClient False) zeroAddress (v_address r) = Inr False)"
    by (simp add: exManager_def)
  note t1 = getNonceKey_v07
    [OF ex_manager_built(2) [of False "Some exSudo" "exRegular False" None] v07
        exConstants_wf idm nkm _ _ enm[of False]]
  note t2 = getNonceKey_v07
    [OF ex_manager_built(2) [of True "Some exSudo" "exRegular False" None] v07
        exConstants_wf idm nkm _ _ enm[of True]]
  note t3 = getNonceKey_v07
    [OF ex_manager_built(4) [of False exSudo None] v07 exConstants_wf idn nkn _ _ enn]
  have c1: "getNonceKey exConstants (exClient False) ?m zeroAddress
     = Inr 24724261392636340248181332038024988162382324504562106373"
    using t1 nonceKeyValue_examples(2)
    by (simp add: exManager_def exRegular_def exValidator_def exConstants_def)
  have c2: "getNonceKey exConstants (exClient True) ?m zeroAddress
     = Inr 204332738782118514447779603620041224482498549624471557"
    using t2 nonceKeyValue_examples(1)
    by (simp add: exManager_def exRegular_def exValidator_def exConstants_def)
  have c3: "getNonceKey exConstants (exClient False) ?n zeroAddress
     = Inr 6385398086941203576493112613126288265078079675760645"
    using t3 nonceKeyValue_examples(3)
    by (simp add: exManager_def exSudo_def exValidator_def exConstants_def)
  from c1 c2 c3 show ?thesis by simp
qed

section \<open>The validators: what the constructors return\<close>

lemma passkeyValidator_members:
  "w_signTransaction (passkeyValidator hs srv ep va cid x y h) tx
     = Inl SignTransactionNotSupportedBySmartAccount"
  "w_signMessage (passkeyValidator hs srv ep va cid x y h) = passkey_signMessage srv"
  "w_signTypedData (passkeyValidator hs srv ep va cid x y h) = passkey_signTypedData hs srv"
  "w_signUserOperation (passkeyValidator hs srv ep va cid x y h)
     = passkey_signUserOperation hs srv ep cid"
  "w_getDummySignature (passkeyValidator hs srv ep va cid x y h) = passkey_getDummySignature"
  "w_isEnabled (passkeyValidator hs srv ep va cid x y h) account sel = Inr False"
  by (simp_all add: passkeyValidator_def passkey_signTransaction_def passkey_isEnabled_def)

lemma createPasskeyValidator_Inr:
  assumes "createPasskeyValidator cl hs srv name ep va = Inr v"
  obtains cid x y h where "getChainId cl = Inr cid"
    and "v = passkeyValidator hs srv ep va cid x y h"
  using assms
  by (auto simp: createPasskeyValidator_def split: sum.splits option.splits if_splits)

lemma getPasskeyValidator_Inr:
  assumes "getPasskeyValidator cl hs srv ep va = Inr v"
  obtains cid x y h where "getChainId cl = Inr cid"
    and "v = passkeyValidator hs srv ep va cid x y h"
  using assms
  by (auto simp: getPasskeyValidator_def split: sum.splits option.splits if_splits)

lemma signerToEcdsaKernelSmartAccount_Inr:
  assumes "signerToEcdsaKernelSmartAccount cl hs p = Inr acc"
  obtains cid where "ac_getChainId cl = Inr cid"
    and "k_signMessage acc = viem_signMessage cl (e_signer p)"
    and "k_signTransaction acc = (\<lambda>tx. Inl SignTransactionNotSupportedBySmartAccount)"
    and "k_signTypedData acc = viem_signTypedData cl (e_signer p)"
    and "k_signUserOperation acc = ecdsa_signUserOperation cl hs (e_signer p) (e_entryPoint p) cid"
    and "k_getDummySignature acc = ecdsa_getDummySignature"
  using assms
  by (auto simp: signerToEcdsaKernelSmartAccount_def Let_def split: sum.splits option.splits if_splits)

lemma ex_passkey_built:
  "createPasskeyValidator (exClient ini) exHashing (exServer cd) name exEntryPoint06 exValidatorAddress
     = Inr (exPasskeyValidator cd)"
  "getPasskeyValidator (exClient ini) exHashing (exServer cd) exEntryPoint06 exValidatorAddress
     = Inr (exPasskeyValidator cd)"
  by (simp_all add: createPasskeyValidator_def getPasskeyValidator_def exClient_def exServer_def
      exEnrollment_def exPasskeyValidator_def)

lemma ex_ecdsa_built:
  "signerToEcdsaKernelSmartAccount exAccountClient exHashing (exEcdsaParams sg) = Inr (exEcdsaAccount sg)"
  by (simp add: signerToEcdsaKernelSmartAccount_def getAccountAddress_def exAccountClient_def
      exEcdsaParams_def exEcdsaAccount_def Let_def)

section \<open>ABI encoding: sizes\<close>

lemma ceil32_ge: "n \<le> ceil32 n"
  unfolding ceil32_def by presburger

lemma ceil32_le: "ceil32 n \<le> n + 31"
  unfolding ceil32_def by presburger

lemma ceil32_aligned: "n mod 32 = 0 \<Longrightarrow> ceil32 n = n"
  unfolding ceil32_def by presburger

lemma size_hex_0x: "size_hex (CHR ''0'' # CHR ''x'' # ds) = (length ds + 1) div 2"
  by (simp add: size_hex_def)

lemma numberToHex_word:
  assumes "0 \<le> v" and "v < 2 ^ 256"
  shows "\<exists>ds. numberToHex v 32 = Inr (''0x'' @ ds) \<and> length ds = 64"
proof -
  have "(16::nat) ^ 64 = 2 ^ 256" by simp
  then have "nat v < 16 ^ 64" using assms by (simp add: nat_less_iff)
  then have len: "length (toString16 (nat v)) \<le> 64" by (rule toString16_length) simp
  have "\<not> (v < 0 \<or> v > 2 ^ (32 * 8) - 1)" using assms by simp
  then have "numberToHex v 32
      = Inr (''0x'' @ replicate (64 - length (toString16 (nat v))) CHR ''0'' @ toString16 (nat v))"
    using len by (simp add: numberToHex_def pad_def Let_def)
  moreover have "length (replicate (64 - length (toString16 (nat v))) CHR ''0'' @ toString16 (nat v)) = 64"
    using len by simp
  ultimately show ?thesis by blast
qed

lemma length_concat_byteHex: "length (concat (map byteHex bs)) = 2 * length bs"
  by (induction bs) (simp_all add: byteHex_def)

lemma encodeBytes_size:
  assumes "isHexOfSize n v" and "n < 2 ^ 32"
  shows "\<exists>ds. encodeBytes v = Inr (''0x'' @ ds) \<and> length ds = 64 + 2 * ceil32 n"
proof -
  have sz: "size_hex v = n" using assms(1) by (simp add: isHexOfSize_def size_hex_def)
  have "int n < 2 ^ 256" using assms(2) by (simp add: order_less_trans)
  then obtain ls where l: "numberToHex (int n) 32 = Inr (''0x'' @ ls)" and ll: "length ls = 64"
    using numberToHex_word[of "int n"] by auto
  have r: "remove0x v = drop 2 v" using assms(1) by (rule remove0x_hex)
  have dl: "length (drop 2 v) = 2 * n" using assms(1) by (rule isHexOfSize_split)
  then have dl2: "length v - 2 = 2 * n" by simp
  show ?thesis
  proof (cases "n mod 32 = 0")
    case True
    then have "encodeBytes v = Inr (''0x'' @ ls @ drop 2 v)"
      by (simp add: encodeBytes_def sz l concatHex_def r)
    moreover have "length (ls @ drop 2 v) = 64 + 2 * ceil32 n"
      using ll dl2 True by (simp add: ceil32_aligned)
    ultimately show ?thesis by blast
  next
    case False
    let ?z = "replicate (ceil32 n * 2 - 2 * n) CHR ''0''"
    have "padRight v (ceil32 n) = Inr (''0x'' @ drop 2 v @ ?z)"
      using ceil32_ge[of n] by (simp add: padRight_def Let_def r dl2)
    with False have "encodeBytes v = Inr (''0x'' @ ls @ drop 2 v @ ?z)"
      by (simp add: encodeBytes_def sz l concatHex_def)
    moreover have "length (ls @ drop 2 v @ ?z) = 64 + 2 * ceil32 n"
      using ll dl2 ceil32_ge[of n] by simp
    ultimately show ?thesis by blast
  qed
qed

lemma encodeString_size:
  assumes "length (concat (map utf8 c)) = L" and "L < 2 ^ 32"
  shows "\<exists>ds. encodeString c = Inr (''0x'' @ ds) \<and> length ds = 64 + 2 * ceil32 L"
proof -
  let ?D = "concat (map byteHex (concat (map utf8 c)))"
  have dl: "length ?D = 2 * L" using assms(1) by (simp add: length_concat_byteHex)
  have h: "stringToHex c = ''0x'' @ ?D" by (simp add: stringToHex_def)
  have sz: "size_hex (stringToHex c) = L" by (simp add: h size_hex_0x dl)
  have "int L < 2 ^ 256" using assms(2) by (simp add: order_less_trans)
  then obtain ls where l: "numberToHex (int L) 32 = Inr (''0x'' @ ls)" and ll: "length ls = 64"
    using numberToHex_word[of "int L"] by auto
  let ?z = "replicate (ceil32 L * 2 - 2 * L) CHR ''0''"
  have "padRight (''0x'' @ ?D) (ceil32 L) = Inr (''0x'' @ ?D @ ?z)"
    using ceil32_ge[of L] by (simp add: padRight_def Let_def dl)
  then have "encodeString c = Inr (''0x'' @ ls @ ?D @ ?z)"
    using sz by (simp add: encodeString_def Let_def h l concatHex_def)
  moreover have "length (ls @ ?D @ ?z) = 64 + 2 * ceil32 L"
    using ll dl ceil32_ge[of L] by simp
  ultimately show ?thesis by blast
qed

lemma encodeWebAuthnSignature_size:
  assumes a: "isHexOfSize n authData" "n < 2 ^ 32"
    and c: "length (concat (map utf8 clientData)) = L" "L < 2 ^ 32"
    and loc: "0 \<le> loc" "loc < 2 ^ 256"
    and r: "0 \<le> r" "r < 2 ^ 256"
    and s: "0 \<le> s" "s < 2 ^ 256"
  shows "\<exists>g. encodeWebAuthnSignature authData clientData loc r s = Inr g
           \<and> size_hex g = 224 + ceil32 n + ceil32 L"
proof -
  obtain da where ea: "encodeBytes authData = Inr (''0x'' @ da)"
    and la: "length da = 64 + 2 * ceil32 n"
    using encodeBytes_size[OF a] by blast
  obtain dc where ec: "encodeString clientData = Inr (''0x'' @ dc)"
    and lc: "length dc = 64 + 2 * ceil32 L"
    using encodeString_size[OF c] by blast
  obtain dl where el: "numberToHex loc 32 = Inr (''0x'' @ dl)" and ll: "length dl = 64"
    using numberToHex_word[OF loc] by blast
  obtain dr where er: "numberToHex r 32 = Inr (''0x'' @ dr)" and lr: "length dr = 64"
    using numberToHex_word[OF r] by blast
  obtain ds where es: "numberToHex s 32 = Inr (''0x'' @ ds)" and ls: "length ds = 64"
    using numberToHex_word[OF s] by blast
  obtain d1 where e1: "numberToHex 160 32 = Inr (''0x'' @ d1)" and l1: "length d1 = 64"
    using numberToHex_word[of 160] by auto
  have sa: "size_hex (''0x'' @ da) = 32 + ceil32 n" by (simp add: size_hex_0x la)
  have "ceil32 n < 2 ^ 33" using ceil32_le[of n] a(2) by simp
  then have "160 + int (32 + ceil32 n) < 2 ^ 256" by (simp add: order_less_trans)
  then obtain d2 where e2: "numberToHex (160 + int (32 + ceil32 n)) 32 = Inr (''0x'' @ d2)"
    and l2: "length d2 = 64"
    using numberToHex_word[of "160 + int (32 + ceil32 n)"] by auto
  have "encodeWebAuthnSignature authData clientData loc r s
        = Inr (concatHex [''0x'' @ d1, ''0x'' @ d2, ''0x'' @ dl, ''0x'' @ dr, ''0x'' @ ds,
                          ''0x'' @ da, ''0x'' @ dc])"
    by (simp only: encodeWebAuthnSignature_def ea ec el er es e1 sa e2 sum.case)
  then have "encodeWebAuthnSignature authData clientData loc r s
        = Inr (''0x'' @ d1 @ d2 @ dl @ dr @ ds @ da @ dc)"
    by (simp add: concatHex_def)
  moreover have "size_hex (''0x'' @ d1 @ d2 @ dl @ dr @ ds @ da @ dc) = 224 + ceil32 n + ceil32 L"
    by (simp add: size_hex_0x l1 l2 ll lr ls la lc)
  ultimately show ?thesis by blast
qed





lemma passkey_signMessage_rawHex:
  assumes "signCeremony srv (stripHexPrefix h) = Inr res" and "success res"
  shows "passkey_signMessage srv (MessageRawHex h)
         = encodeWebAuthnSignature (authenticatorDataHex res) (clientDataJSON res)
             (beforeType res) (sig_r res) (sig_s res)"
  using assms by (simp add: passkey_signMessage_def Let_def)

lemma dummy_values:
  "isHexOfSize 37 dummyAuthenticatorData"
  "length (concat (map utf8 dummyClientDataJSON)) = 112"
  by (simp_all add: dummyAuthenticatorData_def dummyClientDataJSON_def isHexOfSize_def
      hexDigitVal_def utf8_def)

lemma passkey_getDummySignature_size:
  "\<exists>d. passkey_getDummySignature = Inr d \<and> size_hex d = 416"
proof -
  have "\<exists>g. passkey_getDummySignature = Inr g \<and> size_hex g = 224 + ceil32 37 + ceil32 112"
    unfolding passkey_getDummySignature_def
    by (rule encodeWebAuthnSignature_size[OF dummy_values(1) _ dummy_values(2)]) simp_all
  then show ?thesis by (simp add: ceil32_def)
qed

lemma ecdsa_getDummySignature_size:
  "\<exists>d. ecdsa_getDummySignature = Inr d \<and> size_hex d = 69"
  by (simp add: ecdsa_getDummySignature_def size_hex_def)

lemma ecdsa_signUserOperation_size:
  assumes "viem_signMessage cl ownerAcc
             (MessageRawHex (getUserOperationHash hs (uo\<lparr> signature := ''0x'' \<rparr>) ep cid)) = Inr sg"
    and "isHexOfSize k sg"
  shows "\<exists>g. ecdsa_signUserOperation cl hs ownerAcc ep cid uo = Inr g \<and> size_hex g = 4 + k"
proof -
  have "length sg - 2 = 2 * k" using isHexOfSize_split(2)[OF assms(2)] by simp
  then show ?thesis
    using assms(1) remove0x_hex[OF assms(2)]
    by (simp add: ecdsa_signUserOperation_def concatHex_def size_hex_def)
qed

lemma passkey_sizes:
  assumes ch: "signCeremony srv
                 (stripHexPrefix (getUserOperationHash hs (uo\<lparr> signature := ''0x'' \<rparr>) ep cid))
               = Inr res"
    and ok: "success res"
    and a: "isHexOfSize n (authenticatorDataHex res)" "n < 2 ^ 32"
    and c: "length (concat (map utf8 (clientDataJSON res))) = L" "L < 2 ^ 32"
    and rg: "0 \<le> beforeType res \<and> beforeType res < 2 ^ 256 \<and> 0 \<le> sig_r res \<and> sig_r res < 2 ^ 256
             \<and> 0 \<le> sig_s res \<and> sig_s res < 2 ^ 256"
  shows "\<exists>d g. w_getDummySignature (passkeyValidator hs srv ep va cid x y h) = Inr d
           \<and> size_hex d = 416
           \<and> w_signUserOperation (passkeyValidator hs srv ep va cid x y h) uo = Inr g
           \<and> size_hex g = 224 + ceil32 n + ceil32 L"
proof -
  obtain d where d: "passkey_getDummySignature = Inr d" "size_hex d = 416"
    using passkey_getDummySignature_size by blast
  have "\<exists>g. encodeWebAuthnSignature (authenticatorDataHex res) (clientDataJSON res)
             (beforeType res) (sig_r res) (sig_s res) = Inr g
           \<and> size_hex g = 224 + ceil32 n + ceil32 L"
    using rg by (intro encodeWebAuthnSignature_size[OF a c]) simp_all
  then obtain g where g: "passkey_signUserOperation hs srv ep cid uo = Inr g"
    "size_hex g = 224 + ceil32 n + ceil32 L"
    unfolding passkey_signUserOperation_def passkey_signMessage_rawHex[OF ch ok] by blast
  show ?thesis
    by (intro exI[of _ d] exI[of _ g]) (simp add: passkeyValidator_members d g)
qed

lemma ex_values:
  "isHexOfSize 37 exAuthenticatorData"
  "length (concat (map utf8 exClientDataShort)) = 112"
  "length (concat (map utf8 exClientDataLong)) = 132"
  "isHexOfSize 65 dummyEcdsaSig"
  by (simp_all add: exAuthenticatorData_def exClientDataShort_def exClientDataLong_def
      dummyEcdsaSig_def isHexOfSize_def hexDigitVal_def utf8_def)

lemma size_of_Inr: "\<exists>d. x = Inr d \<and> size_hex d = n \<Longrightarrow> map_sum id size_hex x = Inr n"
  by auto

lemma ex_ceremony:
  "signCeremony (exServer cd) msg
     = Inr \<lparr> success = True, authenticatorDataHex = exAuthenticatorData,
             clientDataJSON = cd, beforeType = 1, sig_r = 3, sig_s = 4 \<rparr>"
  by (simp add: exServer_def)





section \<open>The validators: claims\<close>

text \<open>
  C10. A validator returned by \<^verbatim>\<open>createPasskeyValidator\<close> or by \<^verbatim>\<open>getPasskeyValidator\<close>
  answers \<^verbatim>\<open>isEnabled\<close> with false for every account address and every selector.
\<close>

theorem passkey_isEnabled_false:
  "(createPasskeyValidator cl hs srv name ep va = Inr v \<longrightarrow> w_isEnabled v account sel = Inr False)
   \<and> (getPasskeyValidator cl hs srv ep va = Inr v' \<longrightarrow> w_isEnabled v' account sel = Inr False)"
proof (intro conjI impI)
  assume "createPasskeyValidator cl hs srv name ep va = Inr v"
  then show "w_isEnabled v account sel = Inr False"
    by (rule createPasskeyValidator_Inr) (simp add: passkeyValidator_members)
next
  assume "getPasskeyValidator cl hs srv ep va = Inr v'"
  then show "w_isEnabled v' account sel = Inr False"
    by (rule getPasskeyValidator_Inr) (simp add: passkeyValidator_members)
qed

theorem passkey_isEnabled_false_witness:
  "w_isEnabled (exPasskeyValidator exClientDataShort) (sender exUserOp) ''0x51945447'' = Inr False"
  using passkey_isEnabled_false
    [of "exClient False" exHashing "exServer exClientDataShort" "''alice''" exEntryPoint06
        exValidatorAddress "exPasskeyValidator exClientDataShort" "sender exUserOp" "''0x51945447''"
        "exPasskeyValidator exClientDataShort"]
    ex_passkey_built(1)[of False exClientDataShort "''alice''"]
    ex_passkey_built(2)[of False exClientDataShort]
  by simp

lemma passkey_signMessage_string:
  assumes "signCeremony srv (stripHexPrefix str) = Inr res" and "success res"
  shows "passkey_signMessage srv (MessageString str)
         = encodeWebAuthnSignature (authenticatorDataHex res) (clientDataJSON res)
             (beforeType res) (sig_r res) (sig_s res)"
  using assms by (simp add: passkey_signMessage_def Let_def)

lemma passkey_signTypedData_ok:
  assumes "hashTypedData hs td = Inr h"
    and "signCeremony srv (stripHexPrefix h) = Inr res" and "success res"
  shows "passkey_signTypedData hs srv td
         = encodeWebAuthnSignature (authenticatorDataHex res) (clientDataJSON res)
             (beforeType res) (sig_r res) (sig_s res)"
  using assms by (simp add: passkey_signTypedData_def passkey_signMessage_string)

lemma passkey_signUserOperation_ok:
  assumes "signCeremony srv
             (stripHexPrefix (getUserOperationHash hs (uo\<lparr> signature := ''0x'' \<rparr>) ep cid)) = Inr res"
    and "success res"
  shows "passkey_signUserOperation hs srv ep cid uo
         = encodeWebAuthnSignature (authenticatorDataHex res) (clientDataJSON res)
             (beforeType res) (sig_r res) (sig_s res)"
  using assms by (simp add: passkey_signUserOperation_def passkey_signMessage_rawHex)

lemma manager_signTransaction_built:
  assumes "toKernelPluginManager cl ku p = Inr (m, st)"
  shows "p_regular p = Some r \<Longrightarrow> manager_signTransaction m tx = v_signTransaction r tx"
    and "p_regular p = None \<Longrightarrow> p_sudo p = Some su \<Longrightarrow>
         manager_signTransaction m tx = v_signTransaction su tx"
  using toKernelPluginManager_Inr(4,5)[OF assms]
  by (auto simp: manager_signTransaction_def)

text \<open>
  C9 as stated fails: the plugin manager does not define \<^verbatim>\<open>signTransaction\<close>; it exposes the
  one of its active validator (line 180 spreads it). A manager that the constructor builds on
  a validator whose \<^verbatim>\<open>signTransaction\<close> signs returns that signature.
\<close>

theorem manager_signTransaction_counterexample:
  "toKernelPluginManager (exClient False) exUtils
     (exParams exEntryPoint06 (Some exKeyValidator) None None)
     = Inr (exManager exEntryPoint06 (Some exKeyValidator) None exKeyValidator, exState None [])
   \<and> manager_signTransaction (exManager exEntryPoint06 (Some exKeyValidator) None exKeyValidator)
       exTransaction
     = Inr ''0xdeadbeef''"
  using ex_manager_built(3)[of False exKeyValidator None]
  by (simp add: manager_signTransaction_def exManager_def exKeyValidator_def)

text \<open>
  C9, amended. For every transaction, \<^verbatim>\<open>signTransaction\<close> of a passkey validator (either
  constructor) and of the ECDSA kernel account fails with
  \<open>SignTransactionNotSupportedBySmartAccount\<close>, and \<^verbatim>\<open>signTransaction\<close> of a plugin manager is
  that of its active validator: the regular validator it was built with, or the sudo
  validator when there is no regular one. The other signing members stay available: on a
  passkey validator, \<^verbatim>\<open>signMessage\<close>, \<^verbatim>\<open>signTypedData\<close> and \<^verbatim>\<open>signUserOperation\<close> return the
  encoding of what a verified ceremony over the message, the typed-data hash or the
  user-operation hash yields, and that encoding is a signature whenever the values fit their
  ABI types; on the ECDSA kernel account, \<^verbatim>\<open>signMessage\<close> and \<^verbatim>\<open>signTypedData\<close> return what the
  owner (or, for an owner that is not a local account, the wallet) signs, and
  \<^verbatim>\<open>signUserOperation\<close> returns \<^verbatim>\<open>0x00000000\<close> followed by the owner's signature of the
  user-operation hash.
\<close>

theorem signTransaction_unsupported:
  "((createPasskeyValidator cl hs srv name ep va = Inr v
       \<or> getPasskeyValidator cl hs srv ep va = Inr v) \<longrightarrow>
      w_signTransaction v tx = Inl SignTransactionNotSupportedBySmartAccount
      \<and> (signCeremony srv (stripHexPrefix str) = Inr resA \<longrightarrow> success resA \<longrightarrow>
           w_signMessage v (MessageString str)
             = encodeWebAuthnSignature (authenticatorDataHex resA) (clientDataJSON resA)
                 (beforeType resA) (sig_r resA) (sig_s resA))
      \<and> (hashTypedData hs td = Inr h \<longrightarrow>
           signCeremony srv (stripHexPrefix h) = Inr resB \<longrightarrow> success resB \<longrightarrow>
           w_signTypedData v td
             = encodeWebAuthnSignature (authenticatorDataHex resB) (clientDataJSON resB)
                 (beforeType resB) (sig_r resB) (sig_s resB))
      \<and> (getChainId cl = Inr cid \<longrightarrow>
           signCeremony srv
             (stripHexPrefix (getUserOperationHash hs (uo\<lparr> signature := ''0x'' \<rparr>) ep cid))
             = Inr resC \<longrightarrow> success resC \<longrightarrow>
           w_signUserOperation v uo
             = encodeWebAuthnSignature (authenticatorDataHex resC) (clientDataJSON resC)
                 (beforeType resC) (sig_r resC) (sig_s resC)))
   \<and> (isHexOfSize n authData \<longrightarrow> n < 2 ^ 32 \<longrightarrow>
      length (concat (map utf8 clientData)) < 2 ^ 32 \<longrightarrow>
      0 \<le> loc \<and> loc < 2 ^ 256 \<and> 0 \<le> r \<and> r < 2 ^ 256 \<and> 0 \<le> s \<and> s < 2 ^ 256 \<longrightarrow>
      (\<exists>g. encodeWebAuthnSignature authData clientData loc r s = Inr g))
   \<and> (signerToEcdsaKernelSmartAccount acl hs p = Inr acc \<longrightarrow>
      k_signTransaction acc tx = Inl SignTransactionNotSupportedBySmartAccount
      \<and> k_signMessage acc msg
          = (if signer_type (e_signer p) = Local then signer_signMessage (e_signer p) msg
             else ac_walletSignMessage acl (signer_address (e_signer p)) msg)
      \<and> k_signTypedData acc td'
          = (if signer_type (e_signer p) = Local then signer_signTypedData (e_signer p) td'
             else ac_walletSignTypedData acl (signer_address (e_signer p)) td')
      \<and> (ac_getChainId acl = Inr cid' \<longrightarrow>
           k_signMessage acc
             (MessageRawHex
                (getUserOperationHash hs (uo'\<lparr> signature := ''0x'' \<rparr>) (e_entryPoint p) cid'))
             = Inr sg \<longrightarrow>
           k_signUserOperation acc uo' = Inr (concatHex [''0x00000000'', sg])))
   \<and> (toKernelPluginManager mcl ku mp = Inr (m, st) \<longrightarrow>
      (\<forall>re. p_regular mp = Some re \<longrightarrow>
         manager_signTransaction m tx = v_signTransaction re tx)
      \<and> (\<forall>su. p_regular mp = None \<longrightarrow> p_sudo mp = Some su \<longrightarrow>
         manager_signTransaction m tx = v_signTransaction su tx))"
proof -
  have pk: "createPasskeyValidator cl hs srv name ep va = Inr v
       \<or> getPasskeyValidator cl hs srv ep va = Inr v \<Longrightarrow>
      w_signTransaction v tx = Inl SignTransactionNotSupportedBySmartAccount
      \<and> (signCeremony srv (stripHexPrefix str) = Inr resA \<longrightarrow> success resA \<longrightarrow>
           w_signMessage v (MessageString str)
             = encodeWebAuthnSignature (authenticatorDataHex resA) (clientDataJSON resA)
                 (beforeType resA) (sig_r resA) (sig_s resA))
      \<and> (hashTypedData hs td = Inr h \<longrightarrow>
           signCeremony srv (stripHexPrefix h) = Inr resB \<longrightarrow> success resB \<longrightarrow>
           w_signTypedData v td
             = encodeWebAuthnSignature (authenticatorDataHex resB) (clientDataJSON resB)
                 (beforeType resB) (sig_r resB) (sig_s resB))
      \<and> (getChainId cl = Inr cid \<longrightarrow>
           signCeremony srv
             (stripHexPrefix (getUserOperationHash hs (uo\<lparr> signature := ''0x'' \<rparr>) ep cid))
             = Inr resC \<longrightarrow> success resC \<longrightarrow>
           w_signUserOperation v uo
             = encodeWebAuthnSignature (authenticatorDataHex resC) (clientDataJSON resC)
                 (beforeType resC) (sig_r resC) (sig_s resC))"
  proof -
    assume "createPasskeyValidator cl hs srv name ep va = Inr v
       \<or> getPasskeyValidator cl hs srv ep va = Inr v"
    then obtain c x y ih where c: "getChainId cl = Inr c"
      and v: "v = passkeyValidator hs srv ep va c x y ih"
      by (auto elim!: createPasskeyValidator_Inr getPasskeyValidator_Inr)
    show ?thesis
      unfolding v
      by (auto simp: passkeyValidator_members c passkey_signMessage_string
          passkey_signTypedData_ok passkey_signUserOperation_ok)
  qed
  have enc: "isHexOfSize n authData \<Longrightarrow> n < 2 ^ 32 \<Longrightarrow>
      length (concat (map utf8 clientData)) < 2 ^ 32 \<Longrightarrow>
      0 \<le> loc \<and> loc < 2 ^ 256 \<and> 0 \<le> r \<and> r < 2 ^ 256 \<and> 0 \<le> s \<and> s < 2 ^ 256 \<Longrightarrow>
      \<exists>g. encodeWebAuthnSignature authData clientData loc r s = Inr g"
    using encodeWebAuthnSignature_size[of n authData clientData
        "length (concat (map utf8 clientData))" loc r s]
    by blast
  have ec: "signerToEcdsaKernelSmartAccount acl hs p = Inr acc \<Longrightarrow>
      k_signTransaction acc tx = Inl SignTransactionNotSupportedBySmartAccount
      \<and> k_signMessage acc msg
          = (if signer_type (e_signer p) = Local then signer_signMessage (e_signer p) msg
             else ac_walletSignMessage acl (signer_address (e_signer p)) msg)
      \<and> k_signTypedData acc td'
          = (if signer_type (e_signer p) = Local then signer_signTypedData (e_signer p) td'
             else ac_walletSignTypedData acl (signer_address (e_signer p)) td')
      \<and> (ac_getChainId acl = Inr cid' \<longrightarrow>
           k_signMessage acc
             (MessageRawHex
                (getUserOperationHash hs (uo'\<lparr> signature := ''0x'' \<rparr>) (e_entryPoint p) cid'))
             = Inr sg \<longrightarrow>
           k_signUserOperation acc uo' = Inr (concatHex [''0x00000000'', sg]))"
    by (erule signerToEcdsaKernelSmartAccount_Inr)
      (auto simp: viem_signMessage_def viem_signTypedData_def ecdsa_signUserOperation_def)
  have mg: "toKernelPluginManager mcl ku mp = Inr (m, st) \<Longrightarrow>
      (\<forall>re. p_regular mp = Some re \<longrightarrow>
         manager_signTransaction m tx = v_signTransaction re tx)
      \<and> (\<forall>su. p_regular mp = None \<longrightarrow> p_sudo mp = Some su \<longrightarrow>
         manager_signTransaction m tx = v_signTransaction su tx)"
    using manager_signTransaction_built by blast
  from pk enc ec mg show ?thesis by blast
qed

theorem signTransaction_unsupported_witness:
  "w_signTransaction (exPasskeyValidator exClientDataShort) exTransaction
     = Inl SignTransactionNotSupportedBySmartAccount
   \<and> map_sum id size_hex
       (w_signMessage (exPasskeyValidator exClientDataShort) (MessageString ''hello world''))
     = Inr 416
   \<and> map_sum id size_hex (w_signTypedData (exPasskeyValidator exClientDataShort) ''typed data'')
     = Inr 416
   \<and> map_sum id size_hex (w_signUserOperation (exPasskeyValidator exClientDataShort) exUserOp)
     = Inr 416
   \<and> k_signTransaction (exEcdsaAccount dummyEcdsaSig) exTransaction
     = Inl SignTransactionNotSupportedBySmartAccount
   \<and> k_signMessage (exEcdsaAccount dummyEcdsaSig) (MessageString ''hello world'')
     = Inr dummyEcdsaSig
   \<and> k_signTypedData (exEcdsaAccount dummyEcdsaSig) ''typed data'' = Inr dummyEcdsaSig
   \<and> k_signUserOperation (exEcdsaAccount dummyEcdsaSig) exUserOp
     = Inr (concatHex [''0x00000000'', dummyEcdsaSig])
   \<and> manager_signTransaction (exManager exEntryPoint06 (Some exSudo) None exSudo) exTransaction
     = Inl SignTransactionNotSupportedBySmartAccount"
proof -
  let ?res = "\<lparr> success = True, authenticatorDataHex = exAuthenticatorData,
             clientDataJSON = exClientDataShort, beforeType = 1, sig_r = 3, sig_s = 4 \<rparr>"
  let ?v = "exPasskeyValidator exClientDataShort"
  let ?acc = "exEcdsaAccount dummyEcdsaSig"
  let ?m = "exManager exEntryPoint06 (Some exSudo) None exSudo"
  note t = signTransaction_unsupported
    [where cl = "exClient False" and hs = exHashing and srv = "exServer exClientDataShort"
       and name = "''alice''" and ep = exEntryPoint06 and va = exValidatorAddress
       and v = ?v and tx = exTransaction and str = "''hello world''"
       and resA = ?res and resB = ?res and resC = ?res
       and td = "''typed data''" and h = "''0x'' @ replicate 64 CHR ''2''"
       and cid = 1 and uo = exUserOp
       and n = 37 and authData = exAuthenticatorData and clientData = exClientDataShort
       and loc = 1 and r = 3 and s = 4
       and acl = exAccountClient and p = "exEcdsaParams dummyEcdsaSig" and acc = ?acc
       and msg = "MessageString ''hello world''" and td' = "''typed data''"
       and cid' = 1 and uo' = exUserOp and sg = dummyEcdsaSig
       and mcl = "exClient False" and ku = exUtils
       and mp = "exParams exEntryPoint06 (Some exSudo) None None"
       and m = ?m and st = "exState None []"]
  have built: "createPasskeyValidator (exClient False) exHashing (exServer exClientDataShort)
       ''alice'' exEntryPoint06 exValidatorAddress = Inr ?v
     \<or> getPasskeyValidator (exClient False) exHashing (exServer exClientDataShort)
       exEntryPoint06 exValidatorAddress = Inr ?v"
    using ex_passkey_built(1)[of False exClientDataShort "''alice''"] by simp
  have e416: "map_sum id size_hex (encodeWebAuthnSignature exAuthenticatorData exClientDataShort 1 3 4)
              = Inr 416"
  proof -
    have "\<exists>g. encodeWebAuthnSignature exAuthenticatorData exClientDataShort 1 3 4 = Inr g
           \<and> size_hex g = 224 + ceil32 37 + ceil32 112"
      by (rule encodeWebAuthnSignature_size[OF ex_values(1) _ ex_values(2)]) simp_all
    then show ?thesis by (auto simp: ceil32_def)
  qed
  note pkall = t[THEN conjunct1, THEN mp, OF built]
  note ecall = t[THEN conjunct2, THEN conjunct2, THEN conjunct1, THEN mp,
      OF ex_ecdsa_built[of dummyEcdsaSig]]
  note mgall = t[THEN conjunct2, THEN conjunct2, THEN conjunct2, THEN mp,
      OF ex_manager_built(3)[of False exSudo None]]
  from pkall have pk:
    "w_signTransaction ?v exTransaction = Inl SignTransactionNotSupportedBySmartAccount"
    "w_signMessage ?v (MessageString ''hello world'')
       = encodeWebAuthnSignature exAuthenticatorData exClientDataShort 1 3 4"
    "w_signTypedData ?v ''typed data''
       = encodeWebAuthnSignature exAuthenticatorData exClientDataShort 1 3 4"
    "w_signUserOperation ?v exUserOp
       = encodeWebAuthnSignature exAuthenticatorData exClientDataShort 1 3 4"
    by (simp_all add: ex_ceremony exHashing_def exClient_def)
  from ecall have ec:
    "k_signTransaction ?acc exTransaction = Inl SignTransactionNotSupportedBySmartAccount"
    "k_signMessage ?acc (MessageString ''hello world'') = Inr dummyEcdsaSig"
    "k_signTypedData ?acc ''typed data'' = Inr dummyEcdsaSig"
    by (simp_all add: exEcdsaParams_def exSigner_def)
  have raw: "k_signMessage ?acc
       (MessageRawHex (getUserOperationHash exHashing (exUserOp\<lparr> signature := ''0x'' \<rparr>)
          (e_entryPoint (exEcdsaParams dummyEcdsaSig)) 1)) = Inr dummyEcdsaSig"
    by (simp add: exEcdsaAccount_def viem_signMessage_def exSigner_def)
  from ecall raw have uo:
    "k_signUserOperation ?acc exUserOp = Inr (concatHex [''0x00000000'', dummyEcdsaSig])"
    by (simp add: exAccountClient_def)
  from mgall have mg:
    "manager_signTransaction ?m exTransaction = Inl SignTransactionNotSupportedBySmartAccount"
    by (simp add: exParams_def exSudo_def exValidator_def)
  show ?thesis
    by (simp only: pk ec uo mg e416 simp_thms)
qed

text \<open>
  C6 as stated fails: a passkey validator whose signing ceremony returns a client data JSON of
  132 characters (the dummy's fields and \<^verbatim>\<open>"crossOrigin":false\<close>) signs a user operation with
  448 bytes, while its dummy signature has 416 bytes.
\<close>

theorem dummy_signature_length_counterexample:
  "createPasskeyValidator (exClient False) exHashing (exServer exClientDataLong) ''alice''
     exEntryPoint06 exValidatorAddress = Inr (exPasskeyValidator exClientDataLong)
   \<and> map_sum id size_hex (w_getDummySignature (exPasskeyValidator exClientDataLong)) = Inr 416
   \<and> map_sum id size_hex (w_signUserOperation (exPasskeyValidator exClientDataLong) exUserOp)
       = Inr 448"
proof -
  have "\<exists>d g. w_getDummySignature (exPasskeyValidator exClientDataLong) = Inr d
           \<and> size_hex d = 416
           \<and> w_signUserOperation (exPasskeyValidator exClientDataLong) exUserOp = Inr g
           \<and> size_hex g = 224 + ceil32 37 + ceil32 132"
    using passkey_sizes
      [where srv = "exServer exClientDataLong" and hs = exHashing and uo = exUserOp
         and ep = exEntryPoint06 and cid = 1 and n = 37 and L = 132
         and res = "\<lparr> success = True, authenticatorDataHex = exAuthenticatorData,
             clientDataJSON = exClientDataLong, beforeType = 1, sig_r = 3, sig_s = 4 \<rparr>"
         and va = exValidatorAddress and x = 1 and y = 2 and h = "''0x'' @ replicate 64 CHR ''3''"]
      ex_ceremony ex_values(1,3)
    by (simp add: exPasskeyValidator_def)
  then have "map_sum id size_hex (w_getDummySignature (exPasskeyValidator exClientDataLong)) = Inr 416"
    and "map_sum id size_hex (w_signUserOperation (exPasskeyValidator exClientDataLong) exUserOp)
       = Inr 448"
    by (auto simp: ceil32_def)
  then show ?thesis using ex_passkey_built(1)[of False exClientDataLong "''alice''"] by simp
qed

text \<open>
  C6, amended. The dummy signature has a fixed length: 416 bytes for a passkey validator, 69
  bytes for the ECDSA kernel account. A genuine signature of a passkey validator has
  \<open>224 + ceil32 n + ceil32 L\<close> bytes, for \<open>n\<close> bytes of authenticator data and \<open>L\<close> bytes of
  client data JSON (UTF-8), and a genuine signature of the ECDSA kernel account has \<open>4 + k\<close>
  bytes, for a signer that returns \<open>k\<close> bytes. So the lengths agree exactly when
  \<open>ceil32 n + ceil32 L = 192\<close>, respectively \<open>k = 65\<close>.
\<close>

theorem dummy_signature_length:
  "((createPasskeyValidator cl hs srv name ep va = Inr v
      \<or> getPasskeyValidator cl hs srv ep va = Inr v) \<longrightarrow>
      getChainId cl = Inr cid \<longrightarrow>
      signCeremony srv
        (stripHexPrefix (getUserOperationHash hs (uo\<lparr> signature := ''0x'' \<rparr>) ep cid)) = Inr res \<longrightarrow>
      success res \<longrightarrow>
      isHexOfSize n (authenticatorDataHex res) \<longrightarrow> n < 2 ^ 32 \<longrightarrow>
      length (concat (map utf8 (clientDataJSON res))) = L \<longrightarrow> L < 2 ^ 32 \<longrightarrow>
      0 \<le> beforeType res \<and> beforeType res < 2 ^ 256 \<and> 0 \<le> sig_r res \<and> sig_r res < 2 ^ 256
        \<and> 0 \<le> sig_s res \<and> sig_s res < 2 ^ 256 \<longrightarrow>
      (\<exists>d g. w_getDummySignature v = Inr d \<and> size_hex d = 416
           \<and> w_signUserOperation v uo = Inr g \<and> size_hex g = 224 + ceil32 n + ceil32 L))
   \<and> (signerToEcdsaKernelSmartAccount acl hs p = Inr acc \<longrightarrow>
      ac_getChainId acl = Inr cid' \<longrightarrow>
      viem_signMessage acl (e_signer p)
        (MessageRawHex (getUserOperationHash hs (uo\<lparr> signature := ''0x'' \<rparr>) (e_entryPoint p) cid'))
        = Inr sg \<longrightarrow>
      isHexOfSize k sg \<longrightarrow>
      (\<exists>d g. k_getDummySignature acc = Inr d \<and> size_hex d = 69
           \<and> k_signUserOperation acc uo = Inr g \<and> size_hex g = 4 + k))"
proof (intro conjI impI)
  assume built: "createPasskeyValidator cl hs srv name ep va = Inr v
      \<or> getPasskeyValidator cl hs srv ep va = Inr v"
    and cid: "getChainId cl = Inr cid"
    and rest: "signCeremony srv
        (stripHexPrefix (getUserOperationHash hs (uo\<lparr> signature := ''0x'' \<rparr>) ep cid)) = Inr res"
      "success res" "isHexOfSize n (authenticatorDataHex res)" "n < 2 ^ 32"
      "length (concat (map utf8 (clientDataJSON res))) = L" "L < 2 ^ 32"
      "0 \<le> beforeType res \<and> beforeType res < 2 ^ 256 \<and> 0 \<le> sig_r res \<and> sig_r res < 2 ^ 256
        \<and> 0 \<le> sig_s res \<and> sig_s res < 2 ^ 256"
  from built cid obtain x y h where "v = passkeyValidator hs srv ep va cid x y h"
    by (auto elim!: createPasskeyValidator_Inr getPasskeyValidator_Inr)
  then show "\<exists>d g. w_getDummySignature v = Inr d \<and> size_hex d = 416
           \<and> w_signUserOperation v uo = Inr g \<and> size_hex g = 224 + ceil32 n + ceil32 L"
    using passkey_sizes[OF rest] by simp
next
  assume built: "signerToEcdsaKernelSmartAccount acl hs p = Inr acc"
    and cid: "ac_getChainId acl = Inr cid'"
    and sg: "viem_signMessage acl (e_signer p)
        (MessageRawHex (getUserOperationHash hs (uo\<lparr> signature := ''0x'' \<rparr>) (e_entryPoint p) cid'))
        = Inr sg" "isHexOfSize k sg"
  from built cid have
    "k_signUserOperation acc = ecdsa_signUserOperation acl hs (e_signer p) (e_entryPoint p) cid'"
    "k_getDummySignature acc = ecdsa_getDummySignature"
    by (auto elim!: signerToEcdsaKernelSmartAccount_Inr)
  then show "\<exists>d g. k_getDummySignature acc = Inr d \<and> size_hex d = 69
           \<and> k_signUserOperation acc uo = Inr g \<and> size_hex g = 4 + k"
    using ecdsa_getDummySignature_size ecdsa_signUserOperation_size[OF sg] by auto
qed

theorem dummy_signature_length_witness:
  "map_sum id size_hex (w_getDummySignature (exPasskeyValidator exClientDataShort)) = Inr 416
   \<and> map_sum id size_hex (w_signUserOperation (exPasskeyValidator exClientDataShort) exUserOp)
       = Inr 416
   \<and> map_sum id size_hex (k_getDummySignature (exEcdsaAccount dummyEcdsaSig)) = Inr 69
   \<and> map_sum id size_hex (k_signUserOperation (exEcdsaAccount dummyEcdsaSig) exUserOp) = Inr 69"
proof -
  note t = dummy_signature_length
    [where cl = "exClient False" and hs = exHashing and srv = "exServer exClientDataShort"
       and name = "''alice''" and ep = exEntryPoint06 and va = exValidatorAddress
       and v = "exPasskeyValidator exClientDataShort" and cid = 1 and uo = exUserOp
       and res = "\<lparr> success = True, authenticatorDataHex = exAuthenticatorData,
             clientDataJSON = exClientDataShort, beforeType = 1, sig_r = 3, sig_s = 4 \<rparr>"
       and n = 37 and L = 112
       and acl = exAccountClient and p = "exEcdsaParams dummyEcdsaSig"
       and acc = "exEcdsaAccount dummyEcdsaSig" and cid' = 1 and sg = dummyEcdsaSig and k = 65]
  have a: "\<exists>d g. w_getDummySignature (exPasskeyValidator exClientDataShort) = Inr d
           \<and> size_hex d = 416
           \<and> w_signUserOperation (exPasskeyValidator exClientDataShort) exUserOp = Inr g
           \<and> size_hex g = 224 + ceil32 37 + ceil32 112"
    using t ex_passkey_built(1)[of False exClientDataShort "''alice''"] ex_ceremony ex_values(1,2)
    by (simp add: exClient_def)
  have b: "\<exists>d g. k_getDummySignature (exEcdsaAccount dummyEcdsaSig) = Inr d \<and> size_hex d = 69
           \<and> k_signUserOperation (exEcdsaAccount dummyEcdsaSig) exUserOp = Inr g
           \<and> size_hex g = 4 + 65"
    using t ex_ecdsa_built[of dummyEcdsaSig] ex_values(4)
    by (simp add: exAccountClient_def exEcdsaParams_def exSigner_def viem_signMessage_def)
  from a b show ?thesis by (auto simp: ceil32_def)
qed

section \<open>The multi-chain dummy signature: claims\<close>



end
